theory Spec2Isabelle
  imports Main
begin

section \<open>Values, errors and layout blocks\<close>

text \<open>
  A resume record is whatever \<^verbatim>\<open>json.load\<close> returns: \<^verbatim>\<open>None\<close>, a bool, an
  integer, a text, a list, or a dict. A dict is the list of its items in insertion
  order (its keys are distinct); lookups read the first item of a key. Fractional
  numbers are not modelled. A text is a \<^typ>\<open>string\<close>: one \<^typ>\<open>char\<close> per code
  point below 256.
\<close>

datatype json = JNull | JBool bool | JInt int | JStr string
  | JList "json list" | JDict "(string \<times> json) list"

text \<open>
  The exceptions the rendering code can raise, each with the text \<^verbatim>\<open>str(e)\<close> gives.
\<close>

datatype py_error = TypeError string | AttributeError string | KeyError string
  | ValueError string

fun message :: "py_error \<Rightarrow> string" where
  "message (TypeError m) = m"
| "message (AttributeError m) = m"
| "message (KeyError m) = m"
| "message (ValueError m) = m"

text \<open>
  A flowable is a paragraph (its markup and the name of its style), a spacer
  (width, height) or the horizontal rule of \<^verbatim>\<open>add_section_divider\<close>. The
  constructor \<^verbatim>\<open>ResumePDFGenerator.__init__\<close> builds the style sheet before any
  section is processed, so a paragraph records the name under which its style is
  looked up.
\<close>

datatype flowable = Paragraph string string | Spacer nat nat | HRFlowable

text \<open>
  The constructor of a paragraph, \<^verbatim>\<open>Paragraph(text, style)\<close> of reportlab, parses the
  markup of its text and raises \<^verbatim>\<open>ValueError\<close> when it cannot. The parser belongs
  to the library, not to this program; it is a parameter \<open>pe\<close> of the model, which
  gives the message of the exception for a text it rejects and \<open>None\<close> for a text it
  takes. Two facts about it are fixed: a text without \<^verbatim>\<open><\<close> and \<^verbatim>\<open>&\<close> holds no markup
  to reject, and the markup of the minimal header, a literal of the program, is
  well-formed.
\<close>

type_synonym parser = "string \<Rightarrow> string option"

definition plain :: "string \<Rightarrow> bool" where
  "plain text = (CHR ''<'' \<notin> set text \<and> CHR ''&'' \<notin> set text)"

definition default_header :: string where
  "default_header = ''<div align='center'>Resume</div>''"

definition accepts :: "parser \<Rightarrow> string \<Rightarrow> bool" where
  "accepts pe text = (plain text \<or> text = default_header \<or> pe text = None)"

definition make_paragraph :: "parser \<Rightarrow> string \<Rightarrow> string \<Rightarrow> py_error + flowable" where
  "make_paragraph pe text style =
     (if plain text \<or> text = default_header then Inr (Paragraph text style)
      else case pe text of
             None \<Rightarrow> Inr (Paragraph text style)
           | Some m \<Rightarrow> Inl (ValueError m))"

definition seq :: "py_error + 'a \<Rightarrow> ('a \<Rightarrow> py_error + 'b) \<Rightarrow> py_error + 'b" where
  "seq m f = (case m of Inl e \<Rightarrow> Inl e | Inr x \<Rightarrow> f x)"

fun map_e :: "('a \<Rightarrow> py_error + 'b) \<Rightarrow> 'a list \<Rightarrow> py_error + 'b list" where
  "map_e f [] = Inr []"
| "map_e f (x # xs) = seq (f x) (\<lambda>y. seq (map_e f xs) (\<lambda>ys. Inr (y # ys)))"

subsection \<open>The built-in operations of Python the renderers use\<close>

definition truthy :: "json \<Rightarrow> bool" where
  "truthy v = (case v of JNull \<Rightarrow> False | JBool b \<Rightarrow> b | JInt i \<Rightarrow> i \<noteq> 0
     | JStr s \<Rightarrow> s \<noteq> [] | JList xs \<Rightarrow> xs \<noteq> [] | JDict kvs \<Rightarrow> kvs \<noteq> [])"

definition type_name :: "json \<Rightarrow> string" where
  "type_name v = (case v of JNull \<Rightarrow> ''NoneType'' | JBool b \<Rightarrow> ''bool'' | JInt i \<Rightarrow> ''int''
     | JStr s \<Rightarrow> ''str'' | JList xs \<Rightarrow> ''list'' | JDict kvs \<Rightarrow> ''dict'')"

definition type_repr :: "json \<Rightarrow> string" where
  "type_repr v = ''<class '' @ [CHR 0x27] @ type_name v @ [CHR 0x27] @ ''>''"

function str_nat :: "nat \<Rightarrow> string" where
  "str_nat n = (if n < 10 then [char_of (48 + n)]
                else str_nat (n div 10) @ [char_of (48 + n mod 10)])"
  by pat_completeness auto
termination
  by (relation "measure id") auto

declare str_nat.simps [simp del]

definition str_int :: "int \<Rightarrow> string" where
  "str_int i = (if i < 0 then CHR ''-'' # str_nat (nat (- i)) else str_nat (nat i))"

definition hex_digit :: "nat \<Rightarrow> char" where
  "hex_digit n = (if n < 10 then char_of (48 + n) else char_of (87 + n))"

fun join :: "string \<Rightarrow> string list \<Rightarrow> string" where
  "join sep [] = []"
| "join sep [x] = x"
| "join sep (x # y # ys) = x @ sep @ join sep (y # ys)"

text \<open>
  \<^verbatim>\<open>repr\<close> of a text: single quotes unless the text has a single and no double
  quote; the quote and the backslash escaped; tab, newline and return by letter; the
  other unprintable code points as \<^verbatim>\<open>\xNN\<close>.
\<close>

definition repr_char :: "char \<Rightarrow> char \<Rightarrow> string" where
  "repr_char q c =
     (let n = (of_char c :: nat) in
      if c = q \<or> c = CHR 0x5C then [CHR 0x5C, c]
      else if c = CHR 0x09 then [CHR 0x5C, CHR ''t'']
      else if c = CHR 0x0A then [CHR 0x5C, CHR ''n'']
      else if c = CHR 0x0D then [CHR 0x5C, CHR ''r'']
      else if n < 32 \<or> (127 \<le> n \<and> n \<le> 160) \<or> n = 173
        then [CHR 0x5C, CHR ''x'', hex_digit (n div 16), hex_digit (n mod 16)]
      else [c])"

definition repr_str :: "string \<Rightarrow> string" where
  "repr_str s =
     (let q = (if CHR 0x27 \<in> set s \<and> CHR 0x22 \<notin> set s then CHR 0x22 else CHR 0x27)
      in q # concat (map (repr_char q) s) @ [q])"

primrec py_repr :: "json \<Rightarrow> string" where
  "py_repr JNull = ''None''"
| "py_repr (JBool b) = (if b then ''True'' else ''False'')"
| "py_repr (JInt i) = str_int i"
| "py_repr (JStr s) = repr_str s"
| "py_repr (JList xs) = ''['' @ join '', '' (map py_repr xs) @ '']''"
| "py_repr (JDict kvs) =
     ''{'' @ join '', '' (map (\<lambda>kv. repr_str (fst kv) @ '': '' @ snd kv)
                              (map (map_prod id py_repr) kvs)) @ ''}''"

text \<open>What an f-string writes for \<^verbatim>\<open>{v}\<close>, and \<^verbatim>\<open>str(v)\<close>.\<close>

definition py_str :: "json \<Rightarrow> string" where
  "py_str v = (case v of JStr s \<Rightarrow> s | _ \<Rightarrow> py_repr v)"

text \<open>\<^verbatim>\<open>p in s\<close> on two texts: \<open>p\<close> occurs in \<open>s\<close>.\<close>

fun contains_str :: "string \<Rightarrow> string \<Rightarrow> bool" where
  "contains_str p [] = (p = [])"
| "contains_str p (c # cs) = (take (length p) (c # cs) = p \<or> contains_str p cs)"

text \<open>
  \<^verbatim>\<open>k in v\<close> for a text \<open>k\<close>: a key of a dict, an element of a list, a part of a
  text; anything else is not a container.
\<close>

definition py_in :: "string \<Rightarrow> json \<Rightarrow> py_error + bool" where
  "py_in k v = (case v of
       JDict kvs \<Rightarrow> Inr (k \<in> set (map fst kvs))
     | JList xs \<Rightarrow> Inr (JStr k \<in> set xs)
     | JStr s \<Rightarrow> Inr (contains_str k s)
     | _ \<Rightarrow> Inl (TypeError (''argument of type '' @ [CHR 0x27] @ type_name v @ [CHR 0x27]
                             @ '' is not iterable'')))"

text \<open>\<^verbatim>\<open>v[k]\<close> for a text \<open>k\<close>: only a dict can be read by a text.\<close>

definition py_getitem :: "json \<Rightarrow> string \<Rightarrow> py_error + json" where
  "py_getitem v k = (case v of
       JDict kvs \<Rightarrow> (case map_of kvs k of Some x \<Rightarrow> Inr x | None \<Rightarrow> Inl (KeyError (repr_str k)))
     | JStr s \<Rightarrow> Inl (TypeError (''string indices must be integers, not ''
                       @ [CHR 0x27] @ ''str'' @ [CHR 0x27]))
     | JList xs \<Rightarrow> Inl (TypeError ''list indices must be integers or slices, not str'')
     | _ \<Rightarrow> Inl (TypeError ([CHR 0x27] @ type_name v @ [CHR 0x27]
                             @ '' object is not subscriptable'')))"

text \<open>\<^verbatim>\<open>for x in v\<close>: the elements of a list, the keys of a dict, the characters of a text.\<close>

definition py_iter :: "json \<Rightarrow> py_error + json list" where
  "py_iter v = (case v of
       JList xs \<Rightarrow> Inr xs
     | JDict kvs \<Rightarrow> Inr (map (\<lambda>kv. JStr (fst kv)) kvs)
     | JStr s \<Rightarrow> Inr (map (\<lambda>c. JStr [c]) s)
     | _ \<Rightarrow> Inl (TypeError ([CHR 0x27] @ type_name v @ [CHR 0x27]
                             @ '' object is not iterable'')))"

text \<open>\<^verbatim>\<open>sep.join(xs)\<close> on a list: every item has to be a text.\<close>

fun str_items :: "nat \<Rightarrow> json list \<Rightarrow> py_error + string list" where
  "str_items i [] = Inr []"
| "str_items i (x # xs) = (case x of
       JStr s \<Rightarrow> seq (str_items (Suc i) xs) (\<lambda>ss. Inr (s # ss))
     | _ \<Rightarrow> Inl (TypeError (''sequence item '' @ str_nat i @ '': expected str instance, ''
                             @ type_name x @ '' found'')))"

definition py_join :: "string \<Rightarrow> json list \<Rightarrow> py_error + string" where
  "py_join sep xs = seq (str_items 0 xs) (\<lambda>ss. Inr (join sep ss))"

text \<open>
  The marker glyphs of the source are texts of a few code points each, some of them
  above 255; each is written here as the UTF-8 bytes of the source's literal, without
  its final space.
\<close>

definition bullet :: string where
  "bullet = [CHR 0xE2, CHR 0x80, CHR 0x9A, CHR 0xC3, CHR 0x84, CHR 0xC2, CHR 0xA2]"

definition mail_glyph :: string where
  "mail_glyph = [CHR 0xE2, CHR 0x80, CHR 0x9A, CHR 0xC3, CHR 0xBA, CHR 0xC3, CHR 0xA2,
                 CHR 0xC3, CHR 0x94, CHR 0xE2, CHR 0x88, CHR 0x8F, CHR 0xC3, CHR 0xA8]"

definition phone_glyph :: string where
  "phone_glyph = [CHR 0xEF, CHR 0xA3, CHR 0xBF, CHR 0xC3, CHR 0xBC, CHR 0xC3, CHR 0xAC,
                  CHR 0xC3, CHR 0xBB]"

definition link_glyph :: string where
  "link_glyph = [CHR 0xEF, CHR 0xA3, CHR 0xBF, CHR 0xC3, CHR 0xBC, CHR 0xC3, CHR 0xAE,
                 CHR 0xC3, CHR 0xB3]"

section \<open>ExperienceSection\<close>

subsection \<open>The highlighter of \<^verbatim>\<open>_format_responsibility\<close>\<close>

text \<open>
  \<^verbatim>\<open>re.sub(r'(\d+[%+]|\$[\d,]+|increased|decreased|improved|launched|created|developed)',
         r'<b>\1</b>', resp, flags=re.IGNORECASE)\<close>
  scans the text from the left. At each position the alternatives are tried in their
  order; a match is wrapped in bold tags and the scan goes on behind it, otherwise the
  character is copied and the scan goes on one position further.
\<close>

definition is_digit :: "char \<Rightarrow> bool" where
  "is_digit c = (c \<in> set ''0123456789'')"

definition is_upper :: "char \<Rightarrow> bool" where
  "is_upper c = (c \<in> set ''ABCDEFGHIJKLMNOPQRSTUVWXYZ'')"

definition is_lower :: "char \<Rightarrow> bool" where
  "is_lower c = (c \<in> set ''abcdefghijklmnopqrstuvwxyz'')"

definition to_lower :: "char \<Rightarrow> char" where
  "to_lower c = (if is_upper c then char_of (of_char c + (32 :: nat)) else c)"

definition to_upper :: "char \<Rightarrow> char" where
  "to_upper c = (if is_lower c then char_of (of_char c - (32 :: nat)) else c)"

definition highlight_keywords :: "string list" where
  "highlight_keywords = [''increased'', ''decreased'', ''improved'', ''launched'', ''created'',
               ''developed'']"

text \<open>
  \<^verbatim>\<open>\d+[%+]\<close>: the digits are taken greedily; giving one back leaves a digit where
  the sign has to be, so the match is the whole run of digits and the sign behind it.
\<close>

definition match_metric :: "string \<Rightarrow> nat option" where
  "match_metric s =
     (let ds = takeWhile is_digit s in
      case dropWhile is_digit s of
        c # _ \<Rightarrow> if ds \<noteq> [] \<and> (c = CHR ''%'' \<or> c = CHR ''+'') then Some (length ds + 1)
                 else None
      | [] \<Rightarrow> None)"

text \<open>\<^verbatim>\<open>\$[\d,]+\<close>: a dollar sign and the whole run of digits and commas behind it.\<close>

definition match_currency :: "string \<Rightarrow> nat option" where
  "match_currency s =
     (case s of
        c # cs \<Rightarrow>
          (let r = takeWhile (\<lambda>d. is_digit d \<or> d = CHR '','') cs in
           if c = CHR ''$'' \<and> r \<noteq> [] then Some (length r + 1) else None)
      | [] \<Rightarrow> None)"

text \<open>The keywords, letter case ignored.\<close>

definition match_keyword :: "string \<Rightarrow> nat option" where
  "match_keyword s =
     (case find (\<lambda>k. map to_lower (take (length k) s) = k) highlight_keywords of
        Some k \<Rightarrow> Some (length k)
      | None \<Rightarrow> None)"

definition match_at :: "string \<Rightarrow> nat option" where
  "match_at s =
     (case match_metric s of
        Some n \<Rightarrow> Some n
      | None \<Rightarrow> (case match_currency s of Some n \<Rightarrow> Some n | None \<Rightarrow> match_keyword s))"

lemma match_metric_bounds: "match_metric s = Some n \<Longrightarrow> 0 < n \<and> n \<le> length s"
proof -
  assume a: "match_metric s = Some n"
  have len: "length s = length (takeWhile is_digit s) + length (dropWhile is_digit s)"
    by (metis length_append takeWhile_dropWhile_id)
  from a len show ?thesis
    by (auto simp: match_metric_def Let_def split: list.splits if_splits)
qed

lemma match_currency_bounds: "match_currency s = Some n \<Longrightarrow> 0 < n \<and> n \<le> length s"
proof -
  assume a: "match_currency s = Some n"
  have "length (takeWhile P xs) \<le> length xs" for P and xs :: string
    by (rule length_takeWhile_le)
  with a show ?thesis
    by (auto simp: match_currency_def Let_def split: list.splits if_splits)
qed

lemma match_keyword_bounds: "match_keyword s = Some n \<Longrightarrow> 0 < n \<and> n \<le> length s"
proof -
  assume a: "match_keyword s = Some n"
  then obtain k where f: "find (\<lambda>k. map to_lower (take (length k) s) = k) highlight_keywords = Some k"
    and n: "n = length k"
    by (auto simp: match_keyword_def split: option.splits)
  from f have k: "k \<in> set highlight_keywords" and eq: "map to_lower (take (length k) s) = k"
    by (auto simp: find_Some_iff)
  from eq have "length (take (length k) s) = length k"
    by (metis length_map)
  then have le: "length k \<le> length s" by simp
  from k have "k \<noteq> []" by (auto simp: highlight_keywords_def)
  with le n show ?thesis by simp
qed

lemma match_at_bounds: "match_at s = Some n \<Longrightarrow> 0 < n \<and> n \<le> length s"
  by (auto simp: match_at_def split: option.splits
      dest: match_metric_bounds match_currency_bounds match_keyword_bounds)

datatype segment = Plain char | Bold string

function segments :: "string \<Rightarrow> segment list" where
  "segments [] = []"
| "segments (c # cs) =
     (case match_at (c # cs) of
        Some n \<Rightarrow> Bold (take n (c # cs)) # segments (drop n (c # cs))
      | None \<Rightarrow> Plain c # segments cs)"
  by pat_completeness auto
termination
  by (relation "measure length") (auto dest: match_at_bounds)

declare segments.simps(2) [simp del]


fun seg_markup :: "segment \<Rightarrow> string" where
  "seg_markup (Plain c) = [c]"
| "seg_markup (Bold m) = ''<b>'' @ m @ ''</b>''"

definition highlight :: "string \<Rightarrow> string" where
  "highlight s = concat (map seg_markup (segments s))"

text \<open>\<^verbatim>\<open>re.sub\<close> takes a text only.\<close>

definition format_responsibility :: "json \<Rightarrow> py_error + string" where
  "format_responsibility resp = (case resp of
       JStr s \<Rightarrow> Inr (highlight s)
     | _ \<Rightarrow> Inl (TypeError (''expected string or bytes-like object, got '' @ [CHR 0x27]
                             @ type_name resp @ [CHR 0x27])))"





subsection \<open>The highlighter bolds the matching runs and nothing else\<close>
















subsection \<open>\<^verbatim>\<open>ExperienceSection.process\<close>\<close>

definition format_date_range :: "json \<Rightarrow> json" where
  "format_date_range date_str = date_str"

text \<open>
  The left cell of the header line: company and location when both are there, the
  company alone when only it is there, nothing otherwise.
\<close>

definition company_loc_date :: "json \<Rightarrow> py_error + string list" where
  "company_loc_date exp =
     seq (seq (py_in ''company'' exp) (\<lambda>c. if c then py_in ''location'' exp else Inr False))
       (\<lambda>both.
          if both then
            seq (py_getitem exp ''company'') (\<lambda>cv.
            seq (py_getitem exp ''location'') (\<lambda>lv.
              Inr [''<b>'' @ py_str cv @ '', '' @ py_str lv @ ''</b>'']))
          else
            seq (py_in ''company'' exp) (\<lambda>c.
              if c then seq (py_getitem exp ''company'') (\<lambda>cv. Inr [''<b>'' @ py_str cv @ ''</b>''])
              else Inr []))"

definition company_date_text :: "json \<Rightarrow> py_error + string" where
  "company_date_text exp =
     seq (company_loc_date exp) (\<lambda>cld.
     seq (py_in ''date'' exp) (\<lambda>has_date.
     seq (if has_date
          then seq (py_getitem exp ''date'') (\<lambda>d.
                 Inr (''<td align='right'>'' @ py_str (format_date_range d) @ ''</td>''))
          else Inr [])
       (\<lambda>date_cell.
          Inr (''<table width='100%'><tr>'' @ ''<td>'' @ join '' '' cld @ ''</td>''
               @ date_cell @ ''</tr></table>''))))"

definition experience_title :: "parser \<Rightarrow> json \<Rightarrow> py_error + flowable list" where
  "experience_title pe exp =
     seq (py_in ''title'' exp) (\<lambda>t.
       if t then seq (py_getitem exp ''title'') (\<lambda>tv.
              seq (make_paragraph pe (''<i>'' @ py_str tv @ ''</i>'') ''JobTitle'') (\<lambda>p. Inr [p]))
       else Inr [])"

definition responsibility_item :: "parser \<Rightarrow> json \<Rightarrow> py_error + flowable" where
  "responsibility_item pe resp =
     seq (format_responsibility resp) (\<lambda>formatted_resp.
       make_paragraph pe (bullet @ '' '' @ formatted_resp) ''ListItem'')"

definition experience_responsibilities :: "parser \<Rightarrow> json \<Rightarrow> py_error + flowable list" where
  "experience_responsibilities pe exp =
     seq (py_in ''responsibilities'' exp) (\<lambda>r.
       if r then
         seq (py_getitem exp ''responsibilities'') (\<lambda>rv.
         seq (py_iter rv) (\<lambda>resps.
         seq (map_e (responsibility_item pe) resps) (\<lambda>ps. Inr (Spacer 1 5 # ps))))
       else Inr [])"

definition achievement_item :: "parser \<Rightarrow> json \<Rightarrow> py_error + flowable" where
  "achievement_item pe achievement =
     make_paragraph pe (bullet @ '' '' @ py_str achievement) ''ListItem''"

definition experience_achievements :: "parser \<Rightarrow> json \<Rightarrow> py_error + flowable list" where
  "experience_achievements pe exp =
     seq (py_in ''achievements'' exp) (\<lambda>a.
       if a then
         seq (py_getitem exp ''achievements'') (\<lambda>av.
         seq (py_iter av) (\<lambda>items. map_e (achievement_item pe) items))
       else Inr [])"

text \<open>The body of the loop of \<^verbatim>\<open>ExperienceSection.process\<close> for one element.\<close>

definition experience_entry :: "parser \<Rightarrow> json \<Rightarrow> py_error + flowable list" where
  "experience_entry pe exp =
     seq (company_date_text exp) (\<lambda>header.
     seq (make_paragraph pe header ''ExperienceTitle'') (\<lambda>head.
     seq (experience_title pe exp) (\<lambda>title.
     seq (experience_responsibilities pe exp) (\<lambda>resps.
     seq (experience_achievements pe exp) (\<lambda>achs.
       Inr (head # title @ resps @ achs @ [Spacer 1 10]))))))"

definition experience_process :: "parser \<Rightarrow> json \<Rightarrow> py_error + flowable list" where
  "experience_process pe experiences =
     seq (py_iter experiences) (\<lambda>exps.
     seq (map_e (experience_entry pe) exps) (\<lambda>bs. Inr (concat bs)))"

section \<open>SkillsSection\<close>

definition skill_line :: "parser \<Rightarrow> string \<times> json \<Rightarrow> py_error + flowable list" where
  "skill_line pe item =
     (case item of (category, skill_list) \<Rightarrow>
        seq (case skill_list of
               JList xs \<Rightarrow> py_join '', '' xs
             | _ \<Rightarrow> Inr (py_str skill_list)) (\<lambda>skills.
        seq (make_paragraph pe (''<b>'' @ category @ '':</b> '' @ skills) ''SkillItem'') (\<lambda>p.
          Inr [p, Spacer 1 3])))"

text \<open>Only a dict has \<^verbatim>\<open>items()\<close>.\<close>

definition py_items :: "json \<Rightarrow> py_error + (string \<times> json) list" where
  "py_items v = (case v of
       JDict kvs \<Rightarrow> Inr kvs
     | _ \<Rightarrow> Inl (AttributeError ([CHR 0x27] @ type_name v @ [CHR 0x27]
                     @ '' object has no attribute '' @ [CHR 0x27] @ ''items'' @ [CHR 0x27])))"

definition skills_process :: "parser \<Rightarrow> json \<Rightarrow> py_error + flowable list" where
  "skills_process pe skills =
     seq (py_items skills) (\<lambda>kvs.
     seq (map_e (skill_line pe) kvs) (\<lambda>bs. Inr (concat bs)))"

section \<open>EducationSection\<close>

definition has_key :: "string \<Rightarrow> (string \<times> json) list \<Rightarrow> bool" where
  "has_key k kvs = (k \<in> set (map fst kvs))"

definition value_of :: "(string \<times> json) list \<Rightarrow> string \<Rightarrow> json" where
  "value_of kvs k = (case map_of kvs k of Some v \<Rightarrow> v | None \<Rightarrow> JNull)"

text \<open>
  \<^const>\<open>value_of\<close> is read only under a test that the key is there. The left cell of the
  header line of one education entry:
\<close>

definition school_loc_date :: "(string \<times> json) list \<Rightarrow> string list" where
  "school_loc_date edu =
     (if has_key ''institution'' edu \<and> has_key ''location'' edu
        then [''<b>'' @ py_str (value_of edu ''institution'') @ '', ''
              @ py_str (value_of edu ''location'') @ ''</b>'']
      else if has_key ''institution'' edu
        then [''<b>'' @ py_str (value_of edu ''institution'') @ ''</b>'']
      else if has_key ''school'' edu
        then [''<b>'' @ py_str (value_of edu ''school'') @ ''</b>'']
      else [''<b>Institution not specified</b>''])"

definition school_date_text :: "(string \<times> json) list \<Rightarrow> string" where
  "school_date_text edu =
     ''<table width='100%'><tr>'' @ ''<td>'' @ join '' '' (school_loc_date edu) @ ''</td>''
     @ (if has_key ''date'' edu
          then ''<td align='right'>'' @ py_str (value_of edu ''date'') @ ''</td>''
        else if has_key ''dates'' edu
          then ''<td align='right'>'' @ py_str (value_of edu ''dates'') @ ''</td>''
        else [])
     @ ''</tr></table>''"

definition education_degree :: "parser \<Rightarrow> (string \<times> json) list \<Rightarrow> py_error + flowable list" where
  "education_degree pe edu =
     (if has_key ''degree'' edu \<and> has_key ''major'' edu
        then seq (make_paragraph pe (''<i>'' @ py_str (value_of edu ''degree'') @ '': ''
                                @ py_str (value_of edu ''major'') @ ''</i>'') ''JobTitle'')
               (\<lambda>p. Inr [p])
      else if has_key ''degree'' edu
        then seq (make_paragraph pe (''<i>'' @ py_str (value_of edu ''degree'') @ ''</i>'') ''JobTitle'')
               (\<lambda>p. Inr [p])
      else Inr [])"

definition is_list :: "json \<Rightarrow> bool" where
  "is_list v = (case v of JList xs \<Rightarrow> True | _ \<Rightarrow> False)"

definition elements_of :: "json \<Rightarrow> json list" where
  "elements_of v = (case v of JList xs \<Rightarrow> xs | _ \<Rightarrow> [])"

definition detail_item :: "parser \<Rightarrow> json \<Rightarrow> py_error + flowable" where
  "detail_item pe detail = make_paragraph pe (bullet @ '' '' @ py_str detail) ''ListItem''"

definition education_details :: "parser \<Rightarrow> (string \<times> json) list \<Rightarrow> py_error + flowable list" where
  "education_details pe edu =
     (if has_key ''details'' edu \<and> is_list (value_of edu ''details'')
        then seq (map_e (detail_item pe) (elements_of (value_of edu ''details'')))
               (\<lambda>ps. Inr (Spacer 1 5 # ps))
      else if has_key ''courses'' edu \<and> is_list (value_of edu ''courses'')
        then seq (make_paragraph pe ''<b>Relevant Coursework:</b>'' ''Content'') (\<lambda>heading.
             seq (py_join '', '' (elements_of (value_of edu ''courses''))) (\<lambda>joined.
             seq (make_paragraph pe joined ''Content'') (\<lambda>courses.
               Inr [Spacer 1 5, heading, courses])))
      else Inr [])"

text \<open>
  The body of the loop of \<^verbatim>\<open>EducationSection.process\<close> for one element: an element
  that is not a dict is reported and skipped.
\<close>

definition skipped_entry :: "json \<Rightarrow> string" where
  "skipped_entry edu =
     ''Skipped invalid education entry (not a dictionary): '' @ take 100 (py_str edu) @ ''...''"

definition education_entry :: "parser \<Rightarrow> json \<Rightarrow> py_error + flowable list" where
  "education_entry pe edu =
     (case edu of
        JDict kvs \<Rightarrow>
          seq (make_paragraph pe (school_date_text kvs) ''ExperienceTitle'') (\<lambda>head.
          seq (education_degree pe kvs) (\<lambda>degree.
          seq (education_details pe kvs) (\<lambda>details.
            Inr (head # degree @ details @ [Spacer 1 10]))))
      | _ \<Rightarrow> seq (make_paragraph pe (skipped_entry edu) ''Error'') (\<lambda>p. Inr [p]))"

text \<open>
  \<^verbatim>\<open>EducationSection\<close> has no \<^verbatim>\<open>logger\<close> attribute (\<^verbatim>\<open>DynamicSection.__init__\<close>
  sets \<^verbatim>\<open>styles\<close> and \<^verbatim>\<open>colors\<close> only), so the branch for a dict raises before it
  wraps the dict.
\<close>

definition education_process :: "parser \<Rightarrow> json \<Rightarrow> py_error + flowable list" where
  "education_process pe education =
     (case education of
        JDict kvs \<Rightarrow>
          Inl (AttributeError ([CHR 0x27] @ ''EducationSection'' @ [CHR 0x27]
                 @ '' object has no attribute '' @ [CHR 0x27] @ ''logger'' @ [CHR 0x27]))
      | JList xs \<Rightarrow> seq (map_e (education_entry pe) xs) (\<lambda>bs. Inr (concat bs))
      | JStr s \<Rightarrow> seq (make_paragraph pe (''Education (raw text): '' @ s) ''Normal'') (\<lambda>p. Inr [p])
      | _ \<Rightarrow> seq (make_paragraph pe (''Education data is not in the expected format: ''
                                 @ type_repr education) ''Error'') (\<lambda>p. Inr [p]))"

section \<open>ProjectsSection\<close>

definition project_header :: "json \<Rightarrow> py_error + string" where
  "project_header project =
     seq (py_in ''name'' project) (\<lambda>has_name.
     seq (if has_name then
            seq (py_getitem project ''name'') (\<lambda>nv.
            seq (py_in ''date'' project) (\<lambda>has_date.
            seq (if has_date
                 then seq (py_getitem project ''date'') (\<lambda>dv. Inr ('' ('' @ py_str dv @ '')''))
                 else Inr [])
              (\<lambda>date_part. Inr (''<td><b>'' @ py_str nv @ ''</b>'' @ date_part @ ''</td>''))))
          else Inr [])
       (\<lambda>cell. Inr (''<table width='100%'><tr>'' @ cell @ ''</tr></table>'')))"

definition project_description :: "parser \<Rightarrow> json \<Rightarrow> py_error + flowable list" where
  "project_description pe project =
     seq (py_in ''description'' project) (\<lambda>d.
       if d then seq (py_getitem project ''description'') (\<lambda>dv.
              seq (make_paragraph pe (bullet @ '' '' @ py_str dv) ''ListItem'') (\<lambda>p. Inr [p]))
       else Inr [])"

definition project_technologies :: "parser \<Rightarrow> json \<Rightarrow> py_error + flowable list" where
  "project_technologies pe project =
     seq (py_in ''technologies'' project) (\<lambda>t.
       if t then
         seq (py_getitem project ''technologies'') (\<lambda>tv.
         seq (case tv of JList xs \<Rightarrow> py_join '', '' xs | _ \<Rightarrow> Inr (py_str tv)) (\<lambda>tech_text.
         seq (make_paragraph pe (''<i>Technologies: '' @ tech_text @ ''</i>'') ''ExperienceDetails'')
           (\<lambda>p. Inr [p])))
       else Inr [])"

definition project_entry :: "parser \<Rightarrow> json \<Rightarrow> py_error + flowable list" where
  "project_entry pe project =
     seq (project_header project) (\<lambda>header.
     seq (make_paragraph pe header ''JobTitle'') (\<lambda>head.
     seq (project_description pe project) (\<lambda>desc.
     seq (project_technologies pe project) (\<lambda>tech.
       Inr (head # desc @ tech @ [Spacer 1 5])))))"

definition projects_process :: "parser \<Rightarrow> json \<Rightarrow> py_error + flowable list" where
  "projects_process pe projects =
     seq (py_iter projects) (\<lambda>ps.
     seq (map_e (project_entry pe) ps) (\<lambda>bs. Inr (concat bs)))"

section \<open>ResumePDFGenerator\<close>

subsection \<open>\<^verbatim>\<open>process_section\<close>\<close>

definition list_sections :: "string list" where
  "list_sections = [''experience'', ''education'', ''projects'', ''certifications'',
                    ''publications'']"

definition section_handlers :: "parser \<Rightarrow> string \<Rightarrow> (json \<Rightarrow> py_error + flowable list) option" where
  "section_handlers pe section_name =
     (if section_name = ''experience'' then Some (experience_process pe)
      else if section_name = ''skills'' then Some (skills_process pe)
      else if section_name = ''education'' then Some (education_process pe)
      else if section_name = ''projects'' then Some (projects_process pe)
      else None)"

text \<open>The entry that stands for an education section given as a text.\<close>

definition edu_entry :: "string \<Rightarrow> json" where
  "edu_entry content =
     JList [JDict [(''institution'', JStr ''From Resume Text''),
                   (''degree'', JStr ''Education Information''),
                   (''details'', JList [JStr (take 500 content
                        @ (if 500 < length content then ''...'' else []))])]]"

definition invalid_format :: "parser \<Rightarrow> string \<Rightarrow> string \<Rightarrow> py_error + flowable list" where
  "invalid_format pe section_name content =
     seq (make_paragraph pe (''Error: Invalid data format for '' @ section_name) ''Error'') (\<lambda>a.
     seq (make_paragraph pe (take 250 content @ ''...'') ''Normal'') (\<lambda>b. Inr [a, b]))"

text \<open>The default handling of a section that has no handler.\<close>

definition default_pair :: "parser \<Rightarrow> string \<times> json \<Rightarrow> py_error + flowable list" where
  "default_pair pe kv =
     seq (make_paragraph pe (''<b>'' @ fst kv @ ''</b>'') ''Normal'') (\<lambda>k.
       case snd kv of
         JStr s \<Rightarrow> seq (make_paragraph pe s ''Content'') (\<lambda>v. Inr [k, v])
       | _ \<Rightarrow> Inr [k])"

definition default_bullet :: "parser \<Rightarrow> json \<Rightarrow> py_error + flowable list" where
  "default_bullet pe x =
     (case x of
        JStr s \<Rightarrow> seq (make_paragraph pe (bullet @ '' '' @ s) ''ListItem'') (\<lambda>p. Inr [p])
      | _ \<Rightarrow> Inr [])"

definition default_list_item :: "parser \<Rightarrow> json \<Rightarrow> py_error + flowable list" where
  "default_list_item pe x =
     (case x of
        JStr s \<Rightarrow> seq (make_paragraph pe (bullet @ '' '' @ s) ''ListItem'') (\<lambda>p. Inr [p])
      | JDict kvs \<Rightarrow> seq (map_e (default_pair pe) kvs) (\<lambda>bs. Inr (concat bs))
      | _ \<Rightarrow> Inr [])"

definition default_dict_item :: "parser \<Rightarrow> string \<times> json \<Rightarrow> py_error + flowable list" where
  "default_dict_item pe kv =
     seq (make_paragraph pe (''<b>'' @ fst kv @ ''</b>'') ''Normal'') (\<lambda>k.
       case snd kv of
         JStr s \<Rightarrow> seq (make_paragraph pe s ''Content'') (\<lambda>v. Inr [k, v])
       | JList xs \<Rightarrow> seq (map_e (default_bullet pe) xs) (\<lambda>bs. Inr (k # concat bs))
       | _ \<Rightarrow> Inr [k])"

definition default_section :: "parser \<Rightarrow> json \<Rightarrow> py_error + flowable list" where
  "default_section pe content =
     (case content of
        JStr s \<Rightarrow> seq (make_paragraph pe s ''Normal'') (\<lambda>p. Inr [p])
      | JList xs \<Rightarrow> seq (map_e (default_list_item pe) xs) (\<lambda>bs. Inr (concat bs))
      | JDict kvs \<Rightarrow> seq (map_e (default_dict_item pe) kvs) (\<lambda>bs. Inr (concat bs))
      | _ \<Rightarrow> Inr [])"

text \<open>The body of the \<^verbatim>\<open>try\<close> of \<^verbatim>\<open>process_section\<close>.\<close>

definition section_body :: "parser \<Rightarrow> string \<Rightarrow> json \<Rightarrow> py_error + flowable list" where
  "section_body pe section_name content =
     (case content of
        JStr s \<Rightarrow>
          if section_name \<in> set list_sections then
            (if section_name = ''education'' then education_process pe (edu_entry s)
             else invalid_format pe section_name s)
          else if section_name = ''skills'' then invalid_format pe section_name s
          else seq (make_paragraph pe s ''Normal'') (\<lambda>p. Inr [p])
      | _ \<Rightarrow>
          (case section_handlers pe section_name of
             Some handler \<Rightarrow> handler content
           | None \<Rightarrow> default_section pe content))"

text \<open>
  \<^verbatim>\<open>process_section\<close>: what the body returns, or the one block of its \<^verbatim>\<open>except\<close>.
  That block is a paragraph as well; an exception of its constructor leaves
  \<^verbatim>\<open>process_section\<close>.
\<close>

definition section_error :: "string \<Rightarrow> py_error \<Rightarrow> string" where
  "section_error section_name e = ''Error processing '' @ section_name @ '': '' @ message e"

definition process_section :: "parser \<Rightarrow> string \<Rightarrow> json \<Rightarrow> py_error + flowable list" where
  "process_section pe section_name content =
     (case section_body pe section_name content of
        Inr elements \<Rightarrow> Inr elements
      | Inl e \<Rightarrow> seq (make_paragraph pe (section_error section_name e) ''Error'') (\<lambda>p. Inr [p]))"

subsection \<open>Section titles\<close>

text \<open>
  \<^verbatim>\<open>re.sub(r'([a-z])([A-Z])', r'\1 \2', key)\<close>, then \<^verbatim>\<open>.replace('_', ' ')\<close>, then
  \<^verbatim>\<open>.title()\<close>. The classes of the pattern are the ASCII letters. \<^verbatim>\<open>title\<close> writes
  a character that follows a cased character in lower case and any other character in
  title case. Below 256 the cased characters are the ASCII letters, the ordinal
  indicators, the micro sign and the letters from \<^verbatim>\<open>U+00C0\<close> on (the two arithmetic
  signs among them excepted). The title case of the sharp s is \<^verbatim>\<open>Ss\<close>; the title
  cases of the micro sign and of the y with diaeresis are \<^verbatim>\<open>U+039C\<close> and
  \<^verbatim>\<open>U+0178\<close>, written as their UTF-8 bytes like the glyphs above.
\<close>

fun camel_split :: "string \<Rightarrow> string" where
  "camel_split (a # b # cs) =
     (if is_lower a \<and> is_upper b then a # CHR '' '' # b # camel_split cs
      else a # camel_split (b # cs))"
| "camel_split cs = cs"

definition cased :: "char \<Rightarrow> bool" where
  "cased c =
     (let n = (of_char c :: nat) in
      (65 \<le> n \<and> n \<le> 90) \<or> (97 \<le> n \<and> n \<le> 122) \<or> n = 170 \<or> n = 181 \<or> n = 186
      \<or> (192 \<le> n \<and> n \<le> 214) \<or> (216 \<le> n \<and> n \<le> 246) \<or> 248 \<le> n)"

definition lower_char :: "char \<Rightarrow> char" where
  "lower_char c =
     (let n = (of_char c :: nat) in
      if (65 \<le> n \<and> n \<le> 90) \<or> (192 \<le> n \<and> n \<le> 214) \<or> (216 \<le> n \<and> n \<le> 222)
      then char_of (n + 32) else c)"

definition title_char :: "char \<Rightarrow> string" where
  "title_char c =
     (let n = (of_char c :: nat) in
      if (97 \<le> n \<and> n \<le> 122) \<or> (224 \<le> n \<and> n \<le> 246) \<or> (248 \<le> n \<and> n \<le> 254)
        then [char_of (n - 32)]
      else if n = 223 then ''Ss''
      else if n = 181 then [CHR 0xCE, CHR 0x9C]
      else if n = 255 then [CHR 0xC5, CHR 0xB8]
      else [c])"

fun title_from :: "bool \<Rightarrow> string \<Rightarrow> string" where
  "title_from prev [] = []"
| "title_from prev (c # cs) =
     (if prev then [lower_char c] else title_char c) @ title_from (cased c) cs"

definition section_title :: "string \<Rightarrow> string" where
  "section_title key =
     title_from False (map (\<lambda>c. if c = CHR ''_'' then CHR '' '' else c) (camel_split key))"

subsection \<open>\<^verbatim>\<open>create_header_section\<close> and \<^verbatim>\<open>format_contact_info\<close>\<close>

definition present :: "string \<Rightarrow> (string \<times> json) list \<Rightarrow> bool" where
  "present k kvs = (has_key k kvs \<and> truthy (value_of kvs k))"

definition labelled :: "string \<Rightarrow> string \<Rightarrow> (string \<times> json) list \<Rightarrow> string list" where
  "labelled glyph k kvs =
     (if present k kvs then [glyph @ '' '' @ py_str (value_of kvs k)] else [])"

definition format_contact_info :: "(string \<times> json) list \<Rightarrow> string" where
  "format_contact_info resume_data =
     (let contact_parts = labelled mail_glyph ''email'' resume_data
                          @ labelled phone_glyph ''phone'' resume_data;
          social_parts = labelled link_glyph ''github'' resume_data
                         @ labelled link_glyph ''linkedin'' resume_data
      in (if contact_parts \<noteq> []
          then ''<div align='center'>'' @ join '' | '' contact_parts @ ''</div>'' else [])
         @ (if social_parts \<noteq> []
            then ''<div align='center'>'' @ join '' | '' social_parts @ ''</div>'' else []))"

text \<open>
  \<^verbatim>\<open>json.loads\<close> is a parameter \<open>loads\<close> of the model: the parsed value, or
  \<open>None\<close> for a \<^verbatim>\<open>JSONDecodeError\<close>.
\<close>

definition header_data :: "(string \<Rightarrow> json option) \<Rightarrow> json \<Rightarrow> json" where
  "header_data loads resume_data =
     (case resume_data of
        JDict kvs \<Rightarrow> resume_data
      | JStr s \<Rightarrow> (case loads s of
                     Some v \<Rightarrow> v
                   | None \<Rightarrow> JDict [(''name'', JStr ''Error Processing Resume'')])
      | _ \<Rightarrow> JDict [(''name'', JStr ''Error Processing Resume'')])"

text \<open>
  A block of statements that appends to a list and may raise is a function from the list
  to the list as the block leaves it and the exception, if one leaves the block.
  The \<^verbatim>\<open>try\<close> of \<^verbatim>\<open>create_header_section\<close>:
\<close>

definition header_blocks :: "parser \<Rightarrow> (string \<Rightarrow> json option) \<Rightarrow> json
    \<Rightarrow> flowable list \<times> py_error option" where
  "header_blocks pe loads resume_data =
     (case header_data loads resume_data of
        JDict kvs \<Rightarrow>
          (case make_paragraph pe
                  (if present ''name'' kvs
                   then ''<div align='center'>'' @ py_str (value_of kvs ''name'') @ ''</div>''
                   else default_header) ''HeaderName'' of
             Inl e \<Rightarrow> ([], Some e)
           | Inr name \<Rightarrow>
               if present ''email'' kvs \<or> present ''phone'' kvs \<or> present ''linkedin'' kvs
                  \<or> present ''github'' kvs \<or> present ''website'' kvs
               then (case make_paragraph pe (format_contact_info kvs) ''Contact'' of
                       Inl e \<Rightarrow> ([name], Some e)
                     | Inr contact \<Rightarrow> ([name, contact, Spacer 1 5], None))
               else ([name], None))
      | _ \<Rightarrow>
          (case make_paragraph pe default_header ''HeaderName'' of
             Inl e \<Rightarrow> ([], Some e)
           | Inr name \<Rightarrow> ([name], None)))"

text \<open>With its \<^verbatim>\<open>except\<close>, which adds the minimal header:\<close>

definition create_header_section :: "parser \<Rightarrow> (string \<Rightarrow> json option) \<Rightarrow> json
    \<Rightarrow> flowable list \<times> py_error option" where
  "create_header_section pe loads resume_data =
     (case header_blocks pe loads resume_data of
        (elements, None) \<Rightarrow> (elements, None)
      | (elements, Some e) \<Rightarrow>
          (case make_paragraph pe default_header ''HeaderName'' of
             Inl e' \<Rightarrow> (elements, Some e')
           | Inr name \<Rightarrow> (elements @ [name], None)))"

subsection \<open>\<^verbatim>\<open>process_resume\<close>\<close>

definition error_record :: json where
  "error_record = JDict [(''name'', JStr ''Error Processing Resume''),
                         (''summary'', JStr ''Invalid resume data format'')]"

text \<open>The value \<^verbatim>\<open>resume_data\<close> is bound to after the validation at the top.\<close>

definition validated :: "(string \<Rightarrow> json option) \<Rightarrow> json \<Rightarrow> json" where
  "validated loads resume_data =
     (case resume_data of
        JDict kvs \<Rightarrow> resume_data
      | JStr s \<Rightarrow> (case loads s of Some v \<Rightarrow> v | None \<Rightarrow> error_record)
      | _ \<Rightarrow> error_record)"

definition section_order :: "string list" where
  "section_order = [''summary'', ''skills'', ''experience'', ''education'', ''projects'',
                    ''certifications'', ''publications'']"

definition skip_fields :: "string list" where
  "skip_fields = [''name'', ''email'', ''phone'', ''linkedin'', ''github'', ''website'',
                  ''location'', ''summary''] @ section_order"

text \<open>\<^verbatim>\<open>d[k] = v\<close> on the items of a dict: an old key keeps its place.\<close>

fun dict_set :: "(string \<times> json) list \<Rightarrow> string \<Rightarrow> json \<Rightarrow> (string \<times> json) list" where
  "dict_set [] k v = [(k, v)]"
| "dict_set (kv # kvs) k v = (if fst kv = k then (k, v) # kvs else kv # dict_set kvs k v)"

definition py_setitem :: "json \<Rightarrow> string \<Rightarrow> json \<Rightarrow> py_error + json" where
  "py_setitem d k v = (case d of
       JDict kvs \<Rightarrow> Inr (JDict (dict_set kvs k v))
     | JList xs \<Rightarrow> Inl (TypeError ''list indices must be integers or slices, not str'')
     | _ \<Rightarrow> Inl (TypeError ([CHR 0x27] @ type_name d @ [CHR 0x27]
                     @ '' object does not support item assignment'')))"

text \<open>
  The extra validation of the education section: what \<^verbatim>\<open>resume_data['education']\<close>
  is overwritten with, or \<open>None\<close> for a list, which is left alone.
\<close>

definition education_update :: "json \<Rightarrow> json option" where
  "education_update education_data =
     (case education_data of
        JStr s \<Rightarrow> Some (edu_entry s)
      | JList xs \<Rightarrow> None
      | JDict kvs \<Rightarrow> Some (JList [education_data])
      | _ \<Rightarrow> Some (JList [JDict [(''institution'', JStr ''Invalid Format''),
                                   (''degree'', JStr ''Could not parse education data''),
                                   (''details'', JList [JStr (''Original type: ''
                                        @ type_repr education_data)])]]))"

text \<open>
  The \<^verbatim>\<open>except\<close> of a round of either loop appends one block that names the section
  by its title.
\<close>

definition failed_text :: "string \<Rightarrow> string" where
  "failed_text key = ''Error processing '' @ section_title key"

definition section_failed :: "parser \<Rightarrow> string \<Rightarrow> flowable list
    \<Rightarrow> flowable list \<times> py_error option" where
  "section_failed pe key mc =
     (case make_paragraph pe (failed_text key) ''Error'' of
        Inl e \<Rightarrow> (mc, Some e)
      | Inr p \<Rightarrow> (mc @ [p], None))"

text \<open>
  The \<^verbatim>\<open>try\<close> of a round from the title on, with that \<^verbatim>\<open>except\<close>: the header, the
  divider and the blocks of \<^verbatim>\<open>process_section\<close> are appended to the main content.
\<close>

definition render_section :: "parser \<Rightarrow> string \<Rightarrow> py_error + json \<Rightarrow> flowable list
    \<Rightarrow> flowable list \<times> py_error option" where
  "render_section pe key content mc =
     (case make_paragraph pe (section_title key) ''SectionHeader'' of
        Inl e \<Rightarrow> section_failed pe key mc
      | Inr header \<Rightarrow>
          (case seq content (process_section pe key) of
             Inl e \<Rightarrow> section_failed pe key (mc @ [header, HRFlowable])
           | Inr section_elements \<Rightarrow> (mc @ [header, HRFlowable] @ section_elements, None)))"

text \<open>
  The \<^verbatim>\<open>try\<close> of the first loop for one section that is present and not empty, with
  its \<^verbatim>\<open>except\<close>: the state is the record and the main content so far. Only a dict
  passes the test of the round, so the assignment to the record does not raise.
\<close>

definition fixed_section :: "parser \<Rightarrow> string \<Rightarrow> json \<Rightarrow> json \<times> flowable list
    \<Rightarrow> (json \<times> flowable list) \<times> py_error option" where
  "fixed_section pe section v st =
     (case st of (rd, mc) \<Rightarrow>
        (case (if section = ''education''
               then (case education_update v of
                       Some e \<Rightarrow> py_setitem rd section e
                     | None \<Rightarrow> Inr rd)
               else Inr rd) of
           Inl e \<Rightarrow> (case section_failed pe section mc of (mc', r) \<Rightarrow> ((rd, mc'), r))
         | Inr rd' \<Rightarrow>
             (case render_section pe section (py_getitem rd' section) mc of
                (mc', r) \<Rightarrow> ((rd', mc'), r))))"

text \<open>One round of the first loop; the test of the \<^verbatim>\<open>if\<close> is outside the \<^verbatim>\<open>try\<close>.\<close>

definition fixed_step :: "parser \<Rightarrow> string \<Rightarrow> json \<times> flowable list
    \<Rightarrow> (json \<times> flowable list) \<times> py_error option" where
  "fixed_step pe section st =
     (case py_in section (fst st) of
        Inl e \<Rightarrow> (st, Some e)
      | Inr p \<Rightarrow>
          if p then
            (case py_getitem (fst st) section of
               Inl e \<Rightarrow> (st, Some e)
             | Inr v \<Rightarrow> if truthy v then fixed_section pe section v st else (st, None))
          else (st, None))"

fun run_fixed :: "parser \<Rightarrow> string list \<Rightarrow> json \<times> flowable list
    \<Rightarrow> (json \<times> flowable list) \<times> py_error option" where
  "run_fixed pe [] st = (st, None)"
| "run_fixed pe (section # rest) st =
     (case fixed_step pe section st of
        (st', Some e) \<Rightarrow> (st', Some e)
      | (st', None) \<Rightarrow> run_fixed pe rest st')"

text \<open>One round of the second loop, over the items of the record.\<close>

definition other_step :: "parser \<Rightarrow> string \<times> json \<Rightarrow> flowable list
    \<Rightarrow> flowable list \<times> py_error option" where
  "other_step pe kv mc =
     (if fst kv \<notin> set skip_fields \<and> snd kv \<noteq> JNull
      then render_section pe (fst kv) (Inr (snd kv)) mc
      else (mc, None))"

fun run_other :: "parser \<Rightarrow> (string \<times> json) list \<Rightarrow> flowable list
    \<Rightarrow> flowable list \<times> py_error option" where
  "run_other pe [] mc = (mc, None)"
| "run_other pe (kv # rest) mc =
     (case other_step pe kv mc of
        (mc', Some e) \<Rightarrow> (mc', Some e)
      | (mc', None) \<Rightarrow> run_other pe rest mc')"

text \<open>The outermost \<^verbatim>\<open>except\<close>: two paragraphs; an exception of theirs leaves the call.\<close>

definition error_page :: "parser \<Rightarrow> py_error \<Rightarrow> flowable list
    \<Rightarrow> flowable list \<times> py_error option" where
  "error_page pe e mc =
     (case make_paragraph pe ''Error Processing Resume'' ''HeaderName'' of
        Inl e' \<Rightarrow> (mc, Some e')
      | Inr header \<Rightarrow>
          (case make_paragraph pe (''An error occurred while processing this resume: '' @ message e)
                  ''Normal'' of
             Inl e' \<Rightarrow> (mc @ [header], Some e')
           | Inr p \<Rightarrow> (mc @ [header, p], None)))"

record generator =
  header_elements :: "flowable list"
  main_content :: "flowable list"
  resume_data :: json

text \<open>
  \<^verbatim>\<open>process_resume\<close> on a generator fresh from its constructor: the generator as the
  call leaves it, and the exception that leaves the call, if one does. The field
  \<^const>\<open>resume_data\<close> is the record as the call leaves it: for a dict given by the
  caller, this is the caller's own object.
\<close>

definition process_resume :: "parser \<Rightarrow> (string \<Rightarrow> json option) \<Rightarrow> json
    \<Rightarrow> generator \<times> py_error option" where
  "process_resume pe loads input =
     (let rd = validated loads input;
          failed = (\<lambda>header rd mc e.
             case error_page pe e mc of
               (mc', r) \<Rightarrow> (\<lparr>header_elements = header, main_content = mc', resume_data = rd\<rparr>, r))
      in case create_header_section pe loads rd of
           (header, Some e) \<Rightarrow> failed header rd [] e
         | (header, None) \<Rightarrow>
             (case run_fixed pe section_order (rd, []) of
                ((rd', mc), Some e) \<Rightarrow> failed header rd' mc e
              | ((rd', mc), None) \<Rightarrow>
                  (case py_items rd' of
                     Inl e \<Rightarrow> failed header rd' mc e
                   | Inr kvs \<Rightarrow>
                       (case run_other pe kvs mc of
                          (mc', Some e) \<Rightarrow> failed header rd' mc' e
                        | (mc', None) \<Rightarrow>
                            (\<lparr>header_elements = header, main_content = mc', resume_data = rd'\<rparr>,
                             None)))))"


section \<open>Properties of the renderers\<close>

lemma seq_Inr [simp]: "seq (Inr x) f = f x"
  by (simp add: seq_def)

lemma seq_Inl [simp]: "seq (Inl e) f = Inl e"
  by (simp add: seq_def)

lemma py_in_dict [simp]: "py_in k (JDict kvs) = Inr (has_key k kvs)"
  by (simp add: py_in_def has_key_def)

lemma py_getitem_dict:
  "has_key k kvs \<Longrightarrow> py_getitem (JDict kvs) k = Inr (value_of kvs k)"
  by (cases "map_of kvs k")
     (auto simp: py_getitem_def has_key_def value_of_def map_of_eq_None_iff)

lemma make_paragraph_accepts:
  "accepts pe text \<Longrightarrow> make_paragraph pe text style = Inr (Paragraph text style)"
  by (auto simp: accepts_def make_paragraph_def)

lemma make_paragraph_plain:
  "plain text \<Longrightarrow> make_paragraph pe text style = Inr (Paragraph text style)"
  by (simp add: make_paragraph_def)

lemma make_paragraph_Inr:
  "make_paragraph pe text style = Inr p \<Longrightarrow> p = Paragraph text style \<and> accepts pe text"
  by (auto simp: accepts_def make_paragraph_def split: if_splits option.splits)

lemma make_paragraph_Inl:
  "make_paragraph pe text style = Inl e \<Longrightarrow> \<not> accepts pe text \<and> pe text = Some (message e)"
  by (auto simp: accepts_def make_paragraph_def split: if_splits option.splits)


subsection \<open>A parser and a decoder for the examples\<close>

text \<open>
  The examples are evaluated with a parser that stands for reportlab's on their texts:
  it rejects a text in which the tags \<^verbatim>\<open><b>\<close> and \<^verbatim>\<open></b>\<close>, in either letter case,
  are not equal in number, and a text that closes the paragraph itself with
  \<^verbatim>\<open></para>\<close>. Its message quotes the text, as the message of reportlab does.
\<close>

fun count_sub :: "string \<Rightarrow> string \<Rightarrow> nat" where
  "count_sub p [] = 0"
| "count_sub p (c # cs) = (if take (length p) (c # cs) = p then 1 else 0) + count_sub p cs"

definition parser_sample :: parser where
  "parser_sample text =
     (let t = map to_lower text in
      if count_sub ''<b>'' t \<noteq> count_sub ''</b>'' t \<or> contains_str ''</para>'' t
      then Some (''Parse error: saw </para> instead of expected </b>'' @ [CHR 0x0A]
                 @ ''paragraph text '' @ repr_str (''<para>'' @ text @ ''</para>'')
                 @ '' caused exception'')
      else None)"

text \<open>
  \<^verbatim>\<open>json.loads\<close> at the texts of the examples: \<^verbatim>\<open>{}\<close> is the empty dict,
  \<^verbatim>\<open>null\<close> is \<^verbatim>\<open>None\<close>, \<^verbatim>\<open>hello\<close> is no JSON.
\<close>

definition loads_sample :: "string \<Rightarrow> json option" where
  "loads_sample s = (if s = ''{}'' then Some (JDict [])
                     else if s = ''null'' then Some JNull
                     else None)"

subsection \<open>The header line of an experience and of an education entry\<close>

text \<open>
  C10. An experience record with a \<^verbatim>\<open>location\<close> but no \<^verbatim>\<open>company\<close> gets an empty
  left cell: its header line is the table with an empty first cell and, when the
  record has a date, the date cell. Neither a company nor the location is in it, and
  whenever the record renders, this line is its first block.
\<close>

theorem experience_location_needs_company:
  assumes "has_key ''location'' exp" and "\<not> has_key ''company'' exp"
  shows "company_loc_date (JDict exp) = Inr []
    \<and> company_date_text (JDict exp)
        = Inr (''<table width='100%'><tr><td></td>''
               @ (if has_key ''date'' exp
                  then ''<td align='right'>'' @ py_str (value_of exp ''date'') @ ''</td>''
                  else [])
               @ ''</tr></table>'')
    \<and> (\<forall>bs. experience_entry pe (JDict exp) = Inr bs \<longrightarrow>
          hd bs = Paragraph (''<table width='100%'><tr><td></td>''
               @ (if has_key ''date'' exp
                  then ''<td align='right'>'' @ py_str (value_of exp ''date'') @ ''</td>''
                  else [])
               @ ''</tr></table>'') ''ExperienceTitle'')"
proof -
  have a: "company_loc_date (JDict exp) = Inr []"
    using assms by (simp add: company_loc_date_def)
  have b: "company_date_text (JDict exp)
        = Inr (''<table width='100%'><tr><td></td>''
               @ (if has_key ''date'' exp
                  then ''<td align='right'>'' @ py_str (value_of exp ''date'') @ ''</td>''
                  else [])
               @ ''</tr></table>'')"
    by (simp add: company_date_text_def a py_getitem_dict format_date_range_def)
  have c: "experience_entry pe (JDict exp) = Inr bs \<Longrightarrow>
          hd bs = Paragraph (''<table width='100%'><tr><td></td>''
               @ (if has_key ''date'' exp
                  then ''<td align='right'>'' @ py_str (value_of exp ''date'') @ ''</td>''
                  else [])
               @ ''</tr></table>'') ''ExperienceTitle''" for bs
    unfolding experience_entry_def b
    by (auto simp: seq_def split: sum.splits dest: make_paragraph_Inr)
  from a b c show ?thesis by blast
qed

theorem experience_location_needs_company_witness:
  "has_key ''location'' [(''location'', JStr ''Paris''), (''date'', JStr ''2020'')]
   \<and> \<not> has_key ''company'' [(''location'', JStr ''Paris''), (''date'', JStr ''2020'')]
   \<and> experience_entry parser_sample
         (JDict [(''location'', JStr ''Paris''), (''date'', JStr ''2020'')])
       = Inr [Paragraph ''<table width='100%'><tr><td></td><td align='right'>2020</td></tr></table>''
                ''ExperienceTitle'', Spacer 1 10]
   \<and> hd [Paragraph ''<table width='100%'><tr><td></td><td align='right'>2020</td></tr></table>''
                ''ExperienceTitle'', Spacer 1 10]
       = Paragraph (''<table width='100%'><tr><td></td>''
               @ (if has_key ''date'' [(''location'', JStr ''Paris''), (''date'', JStr ''2020'')]
                  then ''<td align='right'>''
                       @ py_str (value_of [(''location'', JStr ''Paris''), (''date'', JStr ''2020'')] ''date'')
                       @ ''</td>''
                  else [])
               @ ''</tr></table>'') ''ExperienceTitle''"
proof -
  let ?e = "[(''location'', JStr ''Paris''), (''date'', JStr ''2020'')]"
  have h1: "has_key ''location'' ?e" by code_simp
  have h2: "\<not> has_key ''company'' ?e" by code_simp
  have e: "experience_entry parser_sample (JDict ?e)
       = Inr [Paragraph ''<table width='100%'><tr><td></td><td align='right'>2020</td></tr></table>''
                ''ExperienceTitle'', Spacer 1 10]"
    by code_simp
  from experience_location_needs_company [OF h1 h2, of parser_sample] e h1 h2 show ?thesis by blast
qed

text \<open>
  C6. The header line of an education entry with the keys \<^verbatim>\<open>school\<close>, \<^verbatim>\<open>location\<close>
  and \<^verbatim>\<open>dates\<close> shows the school alone, while the same entry under the keys
  \<^verbatim>\<open>institution\<close>, \<^verbatim>\<open>location\<close> and \<^verbatim>\<open>date\<close> shows the institution and the
  location: the branch for the alias key does not read the location.
\<close>

theorem education_alias_drops_location:
  "school_date_text [(''school'', JStr ''MIT''), (''location'', JStr ''Boston''),
                     (''dates'', JStr ''2020'')]
     = ''<table width='100%'><tr><td><b>MIT</b></td><td align='right'>2020</td></tr></table>''
   \<and> school_date_text [(''institution'', JStr ''MIT''), (''location'', JStr ''Boston''),
                       (''date'', JStr ''2020'')]
     = ''<table width='100%'><tr><td><b>MIT, Boston</b></td><td align='right'>2020</td></tr></table>''"
  by code_simp

section \<open>The assembled document\<close>

subsection \<open>\<^verbatim>\<open>process_resume\<close> on a dict\<close>

text \<open>
  For a dict, the first loop is described section by section: the blocks of one
  section of the fixed order and the record as the education step leaves it. The block
  of a section is what \<^verbatim>\<open>process_section\<close> returns, or the block of the \<^verbatim>\<open>except\<close>
  of the loop when an exception leaves \<^verbatim>\<open>process_section\<close>.
\<close>

definition is_dict :: "json \<Rightarrow> bool" where
  "is_dict v = (case v of JDict kvs \<Rightarrow> True | _ \<Rightarrow> False)"

definition education_content :: "json \<Rightarrow> json" where
  "education_content v = (case education_update v of Some e \<Rightarrow> e | None \<Rightarrow> v)"

definition section_or_error :: "parser \<Rightarrow> string \<Rightarrow> json \<Rightarrow> flowable list" where
  "section_or_error pe key content =
     (case process_section pe key content of
        Inr elements \<Rightarrow> elements
      | Inl e \<Rightarrow> [Paragraph (failed_text key) ''Error''])"

definition fixed_blocks :: "parser \<Rightarrow> (string \<times> json) list \<Rightarrow> string \<Rightarrow> flowable list" where
  "fixed_blocks pe kvs section =
     (case map_of kvs section of
        None \<Rightarrow> []
      | Some v \<Rightarrow>
          if truthy v
          then [Paragraph (section_title section) ''SectionHeader'', HRFlowable]
               @ section_or_error pe section
                   (if section = ''education'' then education_content v else v)
          else [])"

definition record_after :: "(string \<times> json) list \<Rightarrow> (string \<times> json) list" where
  "record_after kvs =
     (case map_of kvs ''education'' of
        None \<Rightarrow> kvs
      | Some v \<Rightarrow>
          if truthy v
          then (case education_update v of
                  Some e \<Rightarrow> dict_set kvs ''education'' e
                | None \<Rightarrow> kvs)
          else kvs)"

text \<open>An item of the second loop that gets a section, and the blocks of its round.\<close>

definition remaining :: "string \<times> json \<Rightarrow> bool" where
  "remaining kv = (fst kv \<notin> set skip_fields \<and> snd kv \<noteq> JNull)"

definition other_blocks :: "parser \<Rightarrow> string \<times> json \<Rightarrow> flowable list" where
  "other_blocks pe kv = fst (other_step pe kv [])"

lemma map_of_dict_set:
  "map_of (dict_set kvs k v) k' = (if k' = k then Some v else map_of kvs k')"
  by (induction kvs) auto

lemma map_fst_dict_set:
  "k \<in> set (map fst kvs) \<Longrightarrow> map fst (dict_set kvs k v) = map fst kvs"
  by (induction kvs) auto

lemma has_key_map_of: "has_key k kvs \<longleftrightarrow> map_of kvs k \<noteq> None"
  by (simp add: has_key_def map_of_eq_None_iff)

lemma py_getitem_map_of: "map_of kvs k = Some v \<Longrightarrow> py_getitem (JDict kvs) k = Inr v"
  by (simp add: py_getitem_def)

lemma plain_append: "plain (a @ b) \<longleftrightarrow> plain a \<and> plain b"
  by (auto simp: plain_def)

lemma fixed_titles:
  "list_all (\<lambda>s. plain (section_title s) \<and> plain (failed_text s)) section_order"
  by code_simp

lemma fixed_title_plain:
  assumes "section \<in> set section_order"
  shows "plain (section_title section)" and "plain (failed_text section)"
  using assms fixed_titles by (simp_all add: list_all_iff)

lemma section_failed_accepts:
  "accepts pe (failed_text key) \<Longrightarrow>
     section_failed pe key mc = (mc @ [Paragraph (failed_text key) ''Error''], None)"
  by (simp add: section_failed_def make_paragraph_accepts)

lemma render_section_accepts:
  assumes "accepts pe (section_title key)" and "accepts pe (failed_text key)"
  shows "render_section pe key (Inr content) mc
     = (mc @ [Paragraph (section_title key) ''SectionHeader'', HRFlowable]
           @ section_or_error pe key content, None)"
  using assms
  by (simp add: render_section_def make_paragraph_accepts section_failed_accepts
      section_or_error_def split: sum.splits)

lemma render_section_fixed:
  assumes "section \<in> set section_order"
  shows "render_section pe section (Inr content) mc
     = (mc @ [Paragraph (section_title section) ''SectionHeader'', HRFlowable]
           @ section_or_error pe section content, None)"
  using fixed_title_plain [OF assms]
  by (intro render_section_accepts) (simp_all add: accepts_def)

lemma fixed_step_dict_other:
  assumes "section \<in> set section_order" and "section \<noteq> ''education''"
  shows "fixed_step pe section (JDict kvs, mc)
     = ((JDict kvs, mc @ fixed_blocks pe kvs section), None)"
proof (cases "map_of kvs section")
  case None
  then show ?thesis
    by (simp add: fixed_step_def has_key_map_of fixed_blocks_def)
next
  case (Some v)
  then show ?thesis
    using assms(2) render_section_fixed [OF assms(1)]
    by (simp add: fixed_step_def has_key_map_of fixed_blocks_def py_getitem_map_of
        fixed_section_def)
qed

lemma education_in_order: "''education'' \<in> set section_order"
  by (simp add: section_order_def)

lemma fixed_step_dict_education:
  "fixed_step pe ''education'' (JDict kvs, mc)
     = ((JDict (record_after kvs), mc @ fixed_blocks pe kvs ''education''), None)"
proof (cases "map_of kvs ''education''")
  case None
  then show ?thesis
    by (simp add: fixed_step_def has_key_map_of fixed_blocks_def record_after_def)
next
  case (Some v)
  show ?thesis
  proof (cases "truthy v")
    case False
    with Some show ?thesis
      by (simp add: fixed_step_def has_key_map_of fixed_blocks_def py_getitem_map_of
          record_after_def)
  next
    case True
    show ?thesis
    proof (cases "education_update v")
      case None
      with Some True show ?thesis
        using render_section_fixed [OF education_in_order]
        by (simp add: fixed_step_def has_key_map_of fixed_blocks_def py_getitem_map_of
            record_after_def fixed_section_def education_content_def)
    next
      case (Some e)
      have g: "py_getitem (JDict (dict_set kvs ''education'' e)) ''education'' = Inr e"
        by (simp add: py_getitem_def map_of_dict_set)
      from Some \<open>map_of kvs ''education'' = Some v\<close> True show ?thesis
        using render_section_fixed [OF education_in_order]
        by (simp add: fixed_step_def has_key_map_of fixed_blocks_def py_getitem_map_of
            record_after_def fixed_section_def education_content_def py_setitem_def g)
    qed
  qed
qed

lemma map_of_record_after:
  "k \<noteq> ''education'' \<Longrightarrow> map_of (record_after kvs) k = map_of kvs k"
  by (simp add: record_after_def map_of_dict_set split: option.splits)

lemma map_fst_record_after: "map fst (record_after kvs) = map fst kvs"
proof (cases "map_of kvs ''education''")
  case None
  then show ?thesis by (simp add: record_after_def)
next
  case (Some v)
  then have "''education'' \<in> set (map fst kvs)"
    using map_of_eq_None_iff [of kvs "''education''"] by simp
  then show ?thesis
    by (simp add: record_after_def map_fst_dict_set Some split: option.splits)
qed

lemma fixed_blocks_record_after:
  "section \<noteq> ''education'' \<Longrightarrow>
     fixed_blocks pe (record_after kvs) section = fixed_blocks pe kvs section"
  by (simp add: fixed_blocks_def map_of_record_after)

lemma run_fixed_dict:
  "run_fixed pe section_order (JDict kvs, [])
     = ((JDict (record_after kvs), concat (map (fixed_blocks pe kvs) section_order)), None)"
proof -
  have o: "fixed_step pe s (JDict ks, mc) = ((JDict ks, mc @ fixed_blocks pe ks s), None)"
    if "s \<in> set section_order" and "s \<noteq> ''education''" for s ks mc
    using that by (rule fixed_step_dict_other)
  have s1: "fixed_step pe ''summary'' (JDict kvs, [])
      = ((JDict kvs, fixed_blocks pe kvs ''summary''), None)"
    using o [of "''summary''" kvs "[]"] by (simp add: section_order_def)
  have s2: "fixed_step pe ''skills'' (JDict kvs, mc)
      = ((JDict kvs, mc @ fixed_blocks pe kvs ''skills''), None)" for mc
    using o [of "''skills''" kvs mc] by (simp add: section_order_def)
  have s3: "fixed_step pe ''experience'' (JDict kvs, mc)
      = ((JDict kvs, mc @ fixed_blocks pe kvs ''experience''), None)" for mc
    using o [of "''experience''" kvs mc] by (simp add: section_order_def)
  have s5: "fixed_step pe ''projects'' (JDict (record_after kvs), mc)
      = ((JDict (record_after kvs), mc @ fixed_blocks pe kvs ''projects''), None)" for mc
    using o [of "''projects''" "record_after kvs" mc]
      fixed_blocks_record_after [of "''projects''" pe kvs] by (simp add: section_order_def)
  have s6: "fixed_step pe ''certifications'' (JDict (record_after kvs), mc)
      = ((JDict (record_after kvs), mc @ fixed_blocks pe kvs ''certifications''), None)" for mc
    using o [of "''certifications''" "record_after kvs" mc]
      fixed_blocks_record_after [of "''certifications''" pe kvs] by (simp add: section_order_def)
  have s7: "fixed_step pe ''publications'' (JDict (record_after kvs), mc)
      = ((JDict (record_after kvs), mc @ fixed_blocks pe kvs ''publications''), None)" for mc
    using o [of "''publications''" "record_after kvs" mc]
      fixed_blocks_record_after [of "''publications''" pe kvs] by (simp add: section_order_def)
  show ?thesis
    unfolding section_order_def
    by (simp only: run_fixed.simps s1 s2 s3 fixed_step_dict_education s5 s6 s7 prod.case
        option.case list.map concat.simps append_Nil2 append_assoc)
qed

lemma render_section_append:
  "render_section pe key content mc
     = (mc @ fst (render_section pe key content []), snd (render_section pe key content []))"
  by (simp add: render_section_def section_failed_def split: sum.splits)

lemma other_step_append:
  "other_step pe kv mc = (mc @ other_blocks pe kv, snd (other_step pe kv []))"
  unfolding other_blocks_def other_step_def
  using render_section_append [of pe "fst kv" "Inr (snd kv)" mc] by simp

lemma other_step_skipped: "\<not> remaining kv \<Longrightarrow> other_step pe kv mc = (mc, None)"
  by (auto simp: other_step_def remaining_def)

lemma other_blocks_skipped: "\<not> remaining kv \<Longrightarrow> other_blocks pe kv = []"
  by (simp add: other_blocks_def other_step_skipped)

lemma run_other_all:
  "\<forall>kv\<in>set kvs. snd (other_step pe kv []) = None \<Longrightarrow>
     run_other pe kvs mc = (mc @ concat (map (other_blocks pe) kvs), None)"
proof (induction kvs arbitrary: mc)
  case Nil
  then show ?case by simp
next
  case (Cons kv kvs)
  from Cons.prems have a: "other_step pe kv mc = (mc @ other_blocks pe kv, None)"
    using other_step_append [of pe kv mc] by simp
  from Cons.prems have "\<forall>kv\<in>set kvs. snd (other_step pe kv []) = None" by simp
  from Cons.IH [OF this] show ?case by (simp add: a)
qed

lemma run_other_dict_set:
  "k \<in> set skip_fields \<Longrightarrow> run_other pe (dict_set kvs k v) mc = run_other pe kvs mc"
proof (induction kvs arbitrary: mc)
  case Nil
  then show ?case by (simp add: other_step_def)
next
  case (Cons kv kvs)
  show ?case
  proof (cases "fst kv = k")
    case True
    with Cons.prems show ?thesis by (simp add: other_step_def)
  next
    case False
    with Cons show ?thesis by (simp split: prod.splits option.splits)
  qed
qed

lemma education_skipped: "''education'' \<in> set skip_fields"
  by (simp add: skip_fields_def section_order_def)

lemma run_other_record_after: "run_other pe (record_after kvs) mc = run_other pe kvs mc"
  by (simp add: record_after_def run_other_dict_set education_skipped split: option.splits)

lemma default_header_accepted:
  "make_paragraph pe default_header style = Inr (Paragraph default_header style)"
  by (simp add: make_paragraph_def)

lemma create_header_section_returns: "snd (create_header_section pe loads rd) = None"
  by (simp add: create_header_section_def default_header_accepted
      split: prod.splits option.splits)

text \<open>
  The call on a dict: the header, the blocks of the first loop, and the second loop
  from there; the record is the one the education step leaves.
\<close>

lemma process_resume_dict:
  "process_resume pe loads (JDict kvs)
     = (case run_other pe kvs (concat (map (fixed_blocks pe kvs) section_order)) of
          (mc, None) \<Rightarrow>
            (\<lparr>header_elements = fst (create_header_section pe loads (JDict kvs)),
              main_content = mc, resume_data = JDict (record_after kvs)\<rparr>, None)
        | (mc, Some e) \<Rightarrow>
            (\<lparr>header_elements = fst (create_header_section pe loads (JDict kvs)),
              main_content = fst (error_page pe e mc),
              resume_data = JDict (record_after kvs)\<rparr>, snd (error_page pe e mc)))"
proof -
  obtain h where h: "create_header_section pe loads (JDict kvs) = (h, None)"
    using create_header_section_returns [of pe loads "JDict kvs"]
    by (cases "create_header_section pe loads (JDict kvs)") simp
  show ?thesis
    by (simp add: process_resume_def validated_def h run_fixed_dict py_items_def
        run_other_record_after split: prod.splits option.splits)
qed

lemma resume_data_dict:
  "resume_data (fst (process_resume pe loads (JDict kvs))) = JDict (record_after kvs)"
  by (simp add: process_resume_dict split: prod.splits option.splits)

subsection \<open>The record after the call\<close>

text \<open>
  C7, as the claim states it, fails: a record whose education section is a text has
  that key overwritten in the caller's dict.
\<close>

theorem record_mutated_counterexample:
  "resume_data (fst (process_resume parser_sample loads_sample
       (JDict [(''education'', JStr ''BS CS'')])))
     = JDict [(''education'',
               JList [JDict [(''institution'', JStr ''From Resume Text''),
                             (''degree'', JStr ''Education Information''),
                             (''details'', JList [JStr ''BS CS''])]])]"
  by code_simp

text \<open>
  C7, as the code has it. After the call, the record has its keys in their old order
  and every key other than \<^verbatim>\<open>education\<close> has its old value. The value of
  \<^verbatim>\<open>education\<close> is overwritten with its canonical list when it is present, not empty
  and not a list; a record whose education is absent, empty or a list is left as it was.
  This holds whatever the paragraph parser accepts, and also when an exception leaves
  the call.
\<close>

theorem record_after_render:
  "resume_data (fst (process_resume pe loads (JDict kvs))) = JDict (record_after kvs)
   \<and> map fst (record_after kvs) = map fst kvs
   \<and> (k \<noteq> ''education'' \<longrightarrow> map_of (record_after kvs) k = map_of kvs k)
   \<and> (map_of kvs ''education'' = Some v \<and> truthy v \<and> \<not> is_list v \<longrightarrow>
          map_of (record_after kvs) ''education'' = education_update v)
   \<and> (map_of kvs ''education'' = Some v \<and> (\<not> truthy v \<or> is_list v) \<longrightarrow>
          record_after kvs = kvs)
   \<and> (map_of kvs ''education'' = None \<longrightarrow> record_after kvs = kvs)"
proof (intro conjI impI)
  show "resume_data (fst (process_resume pe loads (JDict kvs))) = JDict (record_after kvs)"
    by (rule resume_data_dict)
  show "map fst (record_after kvs) = map fst kvs"
    by (rule map_fst_record_after)
next
  assume "k \<noteq> ''education''"
  then show "map_of (record_after kvs) k = map_of kvs k"
    by (rule map_of_record_after)
next
  assume a: "map_of kvs ''education'' = Some v \<and> truthy v \<and> \<not> is_list v"
  then obtain e where e: "education_update v = Some e"
    by (cases v) (auto simp: education_update_def is_list_def)
  with a show "map_of (record_after kvs) ''education'' = education_update v"
    by (simp add: record_after_def map_of_dict_set)
next
  assume a: "map_of kvs ''education'' = Some v \<and> (\<not> truthy v \<or> is_list v)"
  have "is_list v \<Longrightarrow> education_update v = None"
    by (cases v) (auto simp: education_update_def is_list_def)
  with a show "record_after kvs = kvs"
    by (auto simp: record_after_def)
next
  assume "map_of kvs ''education'' = None"
  then show "record_after kvs = kvs"
    by (simp add: record_after_def)
qed

theorem record_after_render_witness:
  "map_of (record_after [(''name'', JStr ''Ann''), (''education'', JInt 7)]) ''name''
       = Some (JStr ''Ann'')
   \<and> map_of (record_after [(''name'', JStr ''Ann''), (''education'', JInt 7)]) ''education''
       = education_update (JInt 7)
   \<and> record_after [(''education'', JList [])] = [(''education'', JList [])]
   \<and> record_after [(''name'', JStr ''Ann'')] = [(''name'', JStr ''Ann'')]"
proof -
  have a: "map_of (record_after [(''name'', JStr ''Ann''), (''education'', JInt 7)]) ''name''
       = Some (JStr ''Ann'')"
    using record_after_render
      [of parser_sample loads_sample "[(''name'', JStr ''Ann''), (''education'', JInt 7)]"
          "''name''" "JInt 7"]
    by simp
  have b: "map_of (record_after [(''name'', JStr ''Ann''), (''education'', JInt 7)]) ''education''
       = education_update (JInt 7)"
    using record_after_render
      [of parser_sample loads_sample "[(''name'', JStr ''Ann''), (''education'', JInt 7)]"
          "''name''" "JInt 7"]
    by (simp add: truthy_def is_list_def)
  have c: "record_after [(''education'', JList [])] = [(''education'', JList [])]"
    using record_after_render
      [of parser_sample loads_sample "[(''education'', JList [])]" "''name''" "JList []"]
    by (simp add: is_list_def)
  have d: "record_after [(''name'', JStr ''Ann'')] = [(''name'', JStr ''Ann'')]"
    using record_after_render
      [of parser_sample loads_sample "[(''name'', JStr ''Ann'')]" "''name''" "JNull"]
    by simp
  show ?thesis
    by (simp only: a b c d simp_thms)
qed

section \<open>Payloads of an unexpected shape\<close>

subsection \<open>Elements of a list payload that are no records\<close>

definition is_str :: "json \<Rightarrow> bool" where
  "is_str v = (case v of JStr s \<Rightarrow> True | _ \<Rightarrow> False)"

text \<open>\<^verbatim>\<open>None\<close>, a boolean or a number: a value that is no container.\<close>

definition is_atom :: "json \<Rightarrow> bool" where
  "is_atom v = (case v of JNull \<Rightarrow> True | JBool b \<Rightarrow> True | JInt i \<Rightarrow> True | _ \<Rightarrow> False)"

definition not_iterable :: "json \<Rightarrow> py_error" where
  "not_iterable v = TypeError (''argument of type '' @ [CHR 0x27] @ type_name v @ [CHR 0x27]
                               @ '' is not iterable'')"

lemma map_e_Inr:
  "map_e f xs = Inr ys \<Longrightarrow> length ys = length xs \<and> (\<forall>i<length xs. f (xs ! i) = Inr (ys ! i))"
proof (induction xs arbitrary: ys)
  case Nil
  then show ?case by simp
next
  case (Cons x xs)
  from Cons.prems obtain y ys' where y: "f x = Inr y" and r: "map_e f xs = Inr ys'"
    and ys: "ys = y # ys'"
    by (auto simp: seq_def split: sum.splits)
  from Cons.IH [OF r] have l: "length ys' = length xs"
    and a: "\<forall>i<length xs. f (xs ! i) = Inr (ys' ! i)" by simp_all
  show ?case
  proof (intro conjI allI impI)
    show "length ys = length (x # xs)" by (simp add: ys l)
  next
    fix i assume "i < length (x # xs)"
    then show "f ((x # xs) ! i) = Inr (ys ! i)"
      using y a ys by (cases i) simp_all
  qed
qed

lemma map_e_Inl: "map_e f xs = Inl e \<Longrightarrow> \<exists>x\<in>set xs. f x = Inl e"
  by (induction xs) (auto simp: seq_def split: sum.splits)

lemma map_e_fails: "x \<in> set xs \<Longrightarrow> f x = Inl e \<Longrightarrow> \<exists>e'. map_e f xs = Inl e'"
  by (induction xs) (auto simp: seq_def split: sum.splits)

lemma education_entry_not_dict:
  "\<not> is_dict x \<Longrightarrow>
     education_entry pe x = seq (make_paragraph pe (skipped_entry x) ''Error'') (\<lambda>p. Inr [p])"
  by (cases x) (simp_all add: education_entry_def is_dict_def)

lemma process_section_Inr:
  "section_body pe name content = Inr bs \<Longrightarrow> process_section pe name content = Inr bs"
  by (simp add: process_section_def)

lemma section_body_education_list:
  "section_body pe ''education'' (JList xs)
     = seq (map_e (education_entry pe) xs) (\<lambda>bs. Inr (concat bs))"
  by (simp add: section_body_def section_handlers_def education_process_def)

lemma section_body_experience_list:
  "section_body pe ''experience'' (JList xs)
     = seq (map_e (experience_entry pe) xs) (\<lambda>bs. Inr (concat bs))"
  by (simp add: section_body_def section_handlers_def experience_process_def py_iter_def)

lemma section_body_projects_list:
  "section_body pe ''projects'' (JList xs)
     = seq (map_e (project_entry pe) xs) (\<lambda>bs. Inr (concat bs))"
  by (simp add: section_body_def section_handlers_def projects_process_def py_iter_def)

lemma section_body_default_list:
  "name \<in> {''certifications'', ''publications''} \<Longrightarrow>
     section_body pe name (JList xs)
       = seq (map_e (default_list_item pe) xs) (\<lambda>bs. Inr (concat bs))"
  by (auto simp: section_body_def section_handlers_def default_section_def)

lemma py_in_atom: "is_atom x \<Longrightarrow> py_in k x = Inl (not_iterable x)"
  by (cases x) (simp_all add: is_atom_def py_in_def not_iterable_def)

lemma experience_entry_atom: "is_atom x \<Longrightarrow> experience_entry pe x = Inl (not_iterable x)"
  by (simp add: experience_entry_def company_date_text_def company_loc_date_def py_in_atom)

lemma project_entry_atom: "is_atom x \<Longrightarrow> project_entry pe x = Inl (not_iterable x)"
  by (simp add: project_entry_def project_header_def py_in_atom)

text \<open>
  C4, as the claim states it, fails for the sections without the guard: the default
  handling used for \<^verbatim>\<open>certifications\<close> drops the number and shows no marker.
\<close>

theorem list_element_counterexample:
  "process_section parser_sample ''certifications''
       (JList [JInt 5, JDict [(''name'', JStr ''AWS'')]])
     = Inr [Paragraph ''<b>name</b>'' ''Normal'', Paragraph ''AWS'' ''Content'']"
  by code_simp

text \<open>
  C4, as the code has it. In the education section an element that is not a dict renders
  as one \<^verbatim>\<open>Error\<close> block that says the entry was skipped and shows the first 100
  characters of its text, provided the paragraph of that marker can be built. When every
  element renders, the section is the concatenation of the blocks of its elements, one
  group per element in the order of the list, so each such element has its marker
  between the records around it. When the body of the section fails, the exception comes
  from a record or from a marker that could not be built. The other list sections have
  no marker. In \<^verbatim>\<open>experience\<close> and \<^verbatim>\<open>projects\<close> an element that is \<^verbatim>\<open>None\<close>, a
  boolean or a number raises \<^verbatim>\<open>TypeError\<close>, and with it the body of the whole section
  fails. In \<^verbatim>\<open>certifications\<close> and \<^verbatim>\<open>publications\<close> an element that is neither a
  dict nor a text adds no block at all.
\<close>

theorem education_skips_invalid_entries:
  "(\<not> is_dict x \<and> accepts pe (skipped_entry x) \<longrightarrow>
       education_entry pe x = Inr [Paragraph (skipped_entry x) ''Error''])
   \<and> skipped_entry x
        = ''Skipped invalid education entry (not a dictionary): '' @ take 100 (py_str x) @ ''...''
   \<and> (map_e (education_entry pe) xs = Inr bss \<longrightarrow>
        process_section pe ''education'' (JList xs) = Inr (concat bss)
        \<and> length bss = length xs
        \<and> (\<forall>i<length xs. education_entry pe (xs ! i) = Inr (bss ! i)))
   \<and> (map_e (education_entry pe) xs = Inl e \<longrightarrow>
        (\<exists>y\<in>set xs. education_entry pe y = Inl e
            \<and> (is_dict y \<or> \<not> accepts pe (skipped_entry y))))
   \<and> (is_atom x \<longrightarrow> experience_entry pe x = Inl (not_iterable x)
                     \<and> project_entry pe x = Inl (not_iterable x))
   \<and> (x \<in> set xs \<and> is_atom x \<longrightarrow>
        (\<exists>e'. section_body pe ''experience'' (JList xs) = Inl e')
        \<and> (\<exists>e'. section_body pe ''projects'' (JList xs) = Inl e'))
   \<and> (name \<in> {''certifications'', ''publications''} \<longrightarrow>
        section_body pe name (JList xs)
          = seq (map_e (default_list_item pe) xs) (\<lambda>bs. Inr (concat bs)))
   \<and> (\<not> is_dict x \<and> \<not> is_str x \<longrightarrow> default_list_item pe x = Inr [])"
proof (intro conjI impI)
  assume "\<not> is_dict x \<and> accepts pe (skipped_entry x)"
  then show "education_entry pe x = Inr [Paragraph (skipped_entry x) ''Error'']"
    by (simp add: education_entry_not_dict make_paragraph_accepts)
next
  show "skipped_entry x
        = ''Skipped invalid education entry (not a dictionary): '' @ take 100 (py_str x) @ ''...''"
    by (simp add: skipped_entry_def)
next
  assume a: "map_e (education_entry pe) xs = Inr bss"
  then show "process_section pe ''education'' (JList xs) = Inr (concat bss)"
    by (simp add: process_section_def section_body_education_list)
  from map_e_Inr [OF a] show "length bss = length xs" by simp
  from map_e_Inr [OF a] show "\<forall>i<length xs. education_entry pe (xs ! i) = Inr (bss ! i)"
    by simp
next
  assume "map_e (education_entry pe) xs = Inl e"
  then obtain y where y: "y \<in> set xs" and f: "education_entry pe y = Inl e"
    by (blast dest: map_e_Inl)
  have "is_dict y \<or> \<not> accepts pe (skipped_entry y)"
  proof (rule ccontr)
    assume "\<not> (is_dict y \<or> \<not> accepts pe (skipped_entry y))"
    then have "education_entry pe y = Inr [Paragraph (skipped_entry y) ''Error'']"
      by (simp add: education_entry_not_dict make_paragraph_accepts)
    with f show False by simp
  qed
  with y f show "\<exists>y\<in>set xs. education_entry pe y = Inl e
            \<and> (is_dict y \<or> \<not> accepts pe (skipped_entry y))" by blast
next
  assume "is_atom x"
  then show "experience_entry pe x = Inl (not_iterable x)"
    and "project_entry pe x = Inl (not_iterable x)"
    by (simp_all add: experience_entry_atom project_entry_atom)
next
  assume a: "x \<in> set xs \<and> is_atom x"
  then obtain e1 where "map_e (experience_entry pe) xs = Inl e1"
    using map_e_fails [of x xs "experience_entry pe"] experience_entry_atom [of x pe] by blast
  then show "\<exists>e'. section_body pe ''experience'' (JList xs) = Inl e'"
    by (simp add: section_body_experience_list)
  from a obtain e2 where "map_e (project_entry pe) xs = Inl e2"
    using map_e_fails [of x xs "project_entry pe"] project_entry_atom [of x pe] by blast
  then show "\<exists>e'. section_body pe ''projects'' (JList xs) = Inl e'"
    by (simp add: section_body_projects_list)
next
  assume "name \<in> {''certifications'', ''publications''}"
  then show "section_body pe name (JList xs)
          = seq (map_e (default_list_item pe) xs) (\<lambda>bs. Inr (concat bs))"
    by (rule section_body_default_list)
next
  assume "\<not> is_dict x \<and> \<not> is_str x"
  then show "default_list_item pe x = Inr []"
    by (cases x) (simp_all add: default_list_item_def is_dict_def is_str_def)
qed

theorem education_skips_invalid_entries_witness:
  "education_entry parser_sample (JInt 5)
       = Inr [Paragraph ''Skipped invalid education entry (not a dictionary): 5...'' ''Error'']
   \<and> process_section parser_sample ''education'' (JList [JInt 5, JDict [(''school'', JStr ''MIT'')]])
       = Inr [Paragraph ''Skipped invalid education entry (not a dictionary): 5...'' ''Error'',
              Paragraph ''<table width='100%'><tr><td><b>MIT</b></td></tr></table>''
                 ''ExperienceTitle'', Spacer 1 10]
   \<and> (\<exists>y\<in>set [JStr ''a <b> c'']. \<not> accepts parser_sample (skipped_entry y))
   \<and> experience_entry parser_sample (JInt 5)
       = Inl (TypeError ''argument of type 'int' is not iterable'')
   \<and> (\<exists>e'. section_body parser_sample ''projects''
               (JList [JDict [(''name'', JStr ''Site'')], JInt 5]) = Inl e')
   \<and> section_body parser_sample ''publications'' (JList [JInt 5]) = Inr []
   \<and> default_list_item parser_sample (JInt 5) = Inr []"
proof -
  let ?xs = "[JInt 5, JDict [(''school'', JStr ''MIT'')]]"
  let ?bss = "[[Paragraph ''Skipped invalid education entry (not a dictionary): 5...'' ''Error''],
               [Paragraph ''<table width='100%'><tr><td><b>MIT</b></td></tr></table>''
                  ''ExperienceTitle'', Spacer 1 10]]"
  note t = education_skips_invalid_entries
  have n: "\<not> is_dict (JInt 5) \<and> accepts parser_sample (skipped_entry (JInt 5))"
    by code_simp
  have s: "skipped_entry (JInt 5) = ''Skipped invalid education entry (not a dictionary): 5...''"
    by code_simp
  have m: "map_e (education_entry parser_sample) ?xs = Inr ?bss"
    by code_simp
  have f: "map_e (education_entry parser_sample) [JStr ''a <b> c'']
      = Inl (ValueError (''Parse error: saw </para> instead of expected </b>'' @ [CHR 0x0A]
           @ ''paragraph text '' @ [CHR 0x27]
           @ ''<para>Skipped invalid education entry (not a dictionary): a <b> c...</para>''
           @ [CHR 0x27] @ '' caused exception''))"
    by code_simp
  have a: "is_atom (JInt 5)" by (simp add: is_atom_def)
  have x: "JInt 5 \<in> set [JDict [(''name'', JStr ''Site'')], JInt 5] \<and> is_atom (JInt 5)"
    by (simp add: is_atom_def)
  have p: "''publications'' \<in> {''certifications'', ''publications''}" by simp
  have d: "\<not> is_dict (JInt 5) \<and> \<not> is_str (JInt 5)" by (simp add: is_dict_def is_str_def)
  have 1: "education_entry parser_sample (JInt 5)
       = Inr [Paragraph ''Skipped invalid education entry (not a dictionary): 5...'' ''Error'']"
    using mp [OF t [of "JInt 5" parser_sample, THEN conjunct1] n] by (simp only: s)
  have 2: "process_section parser_sample ''education'' (JList ?xs) = Inr (concat ?bss)"
    using mp [OF t [of _ parser_sample ?xs ?bss, THEN conjunct2, THEN conjunct2, THEN conjunct1] m]
    by (rule conjunct1)
  have 3: "\<exists>y\<in>set [JStr ''a <b> c'']. \<not> accepts parser_sample (skipped_entry y)"
  proof -
    from mp [OF t [of _ parser_sample "[JStr ''a <b> c'']" _ _, THEN conjunct2, THEN conjunct2,
        THEN conjunct2, THEN conjunct1] f]
    obtain y where "y \<in> set [JStr ''a <b> c'']"
      and "is_dict y \<or> \<not> accepts parser_sample (skipped_entry y)" by blast
    then show ?thesis by (simp add: is_dict_def)
  qed
  have 4: "experience_entry parser_sample (JInt 5)
       = Inl (TypeError ''argument of type 'int' is not iterable'')"
    using mp [OF t [of "JInt 5" parser_sample, THEN conjunct2, THEN conjunct2, THEN conjunct2,
        THEN conjunct2, THEN conjunct1] a]
    by (simp add: not_iterable_def type_name_def)
  have 5: "\<exists>e'. section_body parser_sample ''projects''
               (JList [JDict [(''name'', JStr ''Site'')], JInt 5]) = Inl e'"
    using mp [OF t [of "JInt 5" parser_sample "[JDict [(''name'', JStr ''Site'')], JInt 5]",
        THEN conjunct2, THEN conjunct2, THEN conjunct2, THEN conjunct2, THEN conjunct2,
        THEN conjunct1] x]
    by (rule conjunct2)
  have 7: "default_list_item parser_sample (JInt 5) = Inr []"
    by (rule mp [OF t [of "JInt 5" parser_sample, THEN conjunct2, THEN conjunct2, THEN conjunct2,
        THEN conjunct2, THEN conjunct2, THEN conjunct2, THEN conjunct2] d])
  have 6: "section_body parser_sample ''publications'' (JList [JInt 5]) = Inr []"
    using mp [OF t [of _ parser_sample "[JInt 5]" _ _ "''publications''", THEN conjunct2,
        THEN conjunct2, THEN conjunct2, THEN conjunct2, THEN conjunct2, THEN conjunct2,
        THEN conjunct1] p]
    by (simp add: 7)
  from 2 have r2: "process_section parser_sample ''education'' (JList ?xs)
       = Inr [Paragraph ''Skipped invalid education entry (not a dictionary): 5...'' ''Error'',
              Paragraph ''<table width='100%'><tr><td><b>MIT</b></td></tr></table>''
                 ''ExperienceTitle'', Spacer 1 10]"
    by simp
  show ?thesis
    by (intro conjI) (rule 1 r2 3 4 5 6 7)+
qed

subsection \<open>A section given as a text\<close>












section \<open>Sections and their failures in the assembled document\<close>

lemma render_section_returns:
  "accepts pe (failed_text key) \<Longrightarrow> snd (render_section pe key content mc) = None"
  by (simp add: render_section_def section_failed_accepts split: sum.splits)

lemma other_step_returns:
  "remaining kv \<longrightarrow> accepts pe (failed_text (fst kv)) \<Longrightarrow> snd (other_step pe kv mc) = None"
  by (simp add: other_step_def remaining_def render_section_returns)

lemma render_section_rendered:
  assumes "accepts pe (section_title key)" and "process_section pe key v = Inr els"
  shows "render_section pe key (Inr v) mc
     = (mc @ [Paragraph (section_title key) ''SectionHeader'', HRFlowable] @ els, None)"
  using assms by (simp add: render_section_def make_paragraph_accepts)

lemma section_body_other:
  "key \<notin> set skip_fields \<Longrightarrow> section_body pe key v = default_section pe v"
  by (cases v)
     (auto simp: section_body_def section_handlers_def default_section_def
        skip_fields_def section_order_def list_sections_def)

lemma other_blocks_rendered:
  assumes "remaining kv" and "accepts pe (section_title (fst kv))"
    and "default_section pe (snd kv) = Inr els"
  shows "other_blocks pe kv = [Paragraph (section_title (fst kv)) ''SectionHeader'', HRFlowable] @ els"
proof -
  from assms(1) have k: "fst kv \<notin> set skip_fields" by (simp add: remaining_def)
  from assms(3) have "process_section pe (fst kv) (snd kv) = Inr els"
    by (simp add: process_section_def section_body_other [OF k])
  from render_section_rendered [OF assms(2) this, of "[]"] assms(1) show ?thesis
    by (simp add: other_blocks_def other_step_def remaining_def)
qed

lemma other_blocks_failed:
  assumes "remaining kv" and "accepts pe (section_title (fst kv))"
    and "accepts pe (failed_text (fst kv))" and "process_section pe (fst kv) (snd kv) = Inl e"
  shows "other_blocks pe kv = [Paragraph (section_title (fst kv)) ''SectionHeader'', HRFlowable,
                               Paragraph (failed_text (fst kv)) ''Error'']"
  using assms render_section_accepts [OF assms(2) assms(3), of "snd kv" "[]"]
  by (simp add: other_blocks_def other_step_def remaining_def section_or_error_def)

lemma other_blocks_filter:
  "concat (map (other_blocks pe) kvs) = concat (map (other_blocks pe) (filter remaining kvs))"
  by (induction kvs) (simp_all add: other_blocks_skipped)

lemma process_resume_returns:
  assumes "\<forall>kv\<in>set kvs. remaining kv \<longrightarrow> accepts pe (failed_text (fst kv))"
  shows "process_resume pe loads (JDict kvs)
     = (\<lparr>header_elements = fst (create_header_section pe loads (JDict kvs)),
         main_content = concat (map (fixed_blocks pe kvs) section_order)
                        @ concat (map (other_blocks pe) (filter remaining kvs)),
         resume_data = JDict (record_after kvs)\<rparr>, None)"
proof -
  from assms have "\<forall>kv\<in>set kvs. snd (other_step pe kv []) = None"
    by (simp add: other_step_returns)
  from run_other_all [OF this] show ?thesis
    by (simp add: process_resume_dict other_blocks_filter [symmetric])
qed

lemma plain_accepted: "plain text \<Longrightarrow> accepts pe text"
  by (simp add: accepts_def)

lemma plain_title_accepted:
  "plain (section_title key) \<Longrightarrow> accepts pe (section_title key) \<and> accepts pe (failed_text key)"
  by (simp add: accepts_def failed_text_def plain_append) (simp add: plain_def)

lemma truthy_not_null: "truthy v \<Longrightarrow> v \<noteq> JNull"
  by (auto simp: truthy_def)

subsection \<open>The sections outside the fixed order\<close>

text \<open>
  C8, as the claim states it, fails for a value whose text the paragraph constructor
  rejects: the section of the key \<^verbatim>\<open>hobbies\<close> then holds the block of the \<^verbatim>\<open>except\<close>
  of the loop in place of the bullets of the default handling.
\<close>

theorem remaining_sections_counterexample:
  "main_content (fst (process_resume parser_sample loads_sample
       (JDict [(''hobbies'', JList [JStr ''a <b> c''])])))
     = [Paragraph ''Hobbies'' ''SectionHeader'', HRFlowable,
        Paragraph ''Error processing Hobbies'' ''Error'']"
  by code_simp

text \<open>
  C8, as the code has it. Take a record that is a dict, and call remaining an item whose
  key is neither in the fixed order nor one of the reserved fields and whose value is not
  \<^verbatim>\<open>None\<close>; an item of this kind whose value is not empty is among them. When the
  paragraph constructor takes the error line of every remaining key, the call returns
  and the main content is the blocks of the sections of the fixed order followed by the
  blocks of the remaining items, in the order of the items of the record. The blocks of
  a remaining item are a header with the key turned into a title, the divider, and what
  the default handling makes of the value, when the constructor takes the title and the
  texts of the default handling; they are the header, the divider and one error line
  that names the title when an exception leaves \<^verbatim>\<open>process_section\<close>. A title without
  markup characters is always taken, with its error line. The key \<^verbatim>\<open>hobbies\<close> with a
  list of two texts gives the title \<^verbatim>\<open>Hobbies\<close> and one bullet for each text.
\<close>

theorem remaining_sections:
  "((\<forall>kv\<in>set kvs. remaining kv \<longrightarrow> accepts pe (failed_text (fst kv))) \<longrightarrow>
       snd (process_resume pe loads (JDict kvs)) = None
       \<and> main_content (fst (process_resume pe loads (JDict kvs)))
           = concat (map (fixed_blocks pe kvs) section_order)
             @ concat (map (other_blocks pe) (filter remaining kvs)))
   \<and> (remaining kv \<and> accepts pe (section_title (fst kv))
        \<and> default_section pe (snd kv) = Inr els \<longrightarrow>
        other_blocks pe kv
          = [Paragraph (section_title (fst kv)) ''SectionHeader'', HRFlowable] @ els)
   \<and> (remaining kv \<and> accepts pe (section_title (fst kv)) \<and> accepts pe (failed_text (fst kv))
        \<and> process_section pe (fst kv) (snd kv) = Inl e \<longrightarrow>
        other_blocks pe kv
          = [Paragraph (section_title (fst kv)) ''SectionHeader'', HRFlowable,
             Paragraph (''Error processing '' @ section_title (fst kv)) ''Error''])
   \<and> (plain (section_title key) \<longrightarrow>
        accepts pe (section_title key) \<and> accepts pe (failed_text key))
   \<and> (remaining kv \<longleftrightarrow> fst kv \<notin> set skip_fields \<and> snd kv \<noteq> JNull)
   \<and> (kv \<in> set kvs \<and> fst kv \<notin> set skip_fields \<and> truthy (snd kv) \<longrightarrow>
        kv \<in> set (filter remaining kvs))
   \<and> set skip_fields = set section_order
        \<union> {''name'', ''email'', ''phone'', ''linkedin'', ''github'', ''website'', ''location'',
            ''summary''}
   \<and> section_title ''hobbies'' = ''Hobbies''
   \<and> section_title ''workHistory'' = ''Work History''
   \<and> section_title ''volunteer_work'' = ''Volunteer Work''
   \<and> process_resume pe loads (JDict [(''hobbies'', JList [JStr ''chess'', JStr ''hiking''])])
       = (\<lparr>header_elements = [Paragraph default_header ''HeaderName''],
           main_content = [Paragraph ''Hobbies'' ''SectionHeader'', HRFlowable,
                           Paragraph (bullet @ '' chess'') ''ListItem'',
                           Paragraph (bullet @ '' hiking'') ''ListItem''],
           resume_data = JDict [(''hobbies'', JList [JStr ''chess'', JStr ''hiking''])]\<rparr>,
          None)"
proof -
  have a: "(\<forall>kv\<in>set kvs. remaining kv \<longrightarrow> accepts pe (failed_text (fst kv))) \<longrightarrow>
       snd (process_resume pe loads (JDict kvs)) = None
       \<and> main_content (fst (process_resume pe loads (JDict kvs)))
           = concat (map (fixed_blocks pe kvs) section_order)
             @ concat (map (other_blocks pe) (filter remaining kvs))"
    by (simp add: process_resume_returns)
  have b: "remaining kv \<and> accepts pe (section_title (fst kv))
        \<and> default_section pe (snd kv) = Inr els \<longrightarrow>
        other_blocks pe kv
          = [Paragraph (section_title (fst kv)) ''SectionHeader'', HRFlowable] @ els"
    using other_blocks_rendered [of kv pe els] by blast
  have c: "remaining kv \<and> accepts pe (section_title (fst kv)) \<and> accepts pe (failed_text (fst kv))
        \<and> process_section pe (fst kv) (snd kv) = Inl e \<longrightarrow>
        other_blocks pe kv
          = [Paragraph (section_title (fst kv)) ''SectionHeader'', HRFlowable,
             Paragraph (''Error processing '' @ section_title (fst kv)) ''Error'']"
    using other_blocks_failed [of kv pe e] by (simp add: failed_text_def)
  have d: "plain (section_title key) \<longrightarrow>
        accepts pe (section_title key) \<and> accepts pe (failed_text key)"
    using plain_title_accepted [of key pe] by blast
  have r: "remaining kv \<longleftrightarrow> fst kv \<notin> set skip_fields \<and> snd kv \<noteq> JNull"
    by (simp add: remaining_def)
  have f: "kv \<in> set kvs \<and> fst kv \<notin> set skip_fields \<and> truthy (snd kv) \<longrightarrow>
        kv \<in> set (filter remaining kvs)"
    by (auto simp: remaining_def dest: truthy_not_null)
  have s: "set skip_fields = set section_order
        \<union> {''name'', ''email'', ''phone'', ''linkedin'', ''github'', ''website'', ''location'',
            ''summary''}"
    by (auto simp: skip_fields_def)
  have t1: "section_title ''hobbies'' = ''Hobbies''" by code_simp
  have t2: "section_title ''workHistory'' = ''Work History''" by code_simp
  have t3: "section_title ''volunteer_work'' = ''Volunteer Work''" by code_simp
  have h: "process_resume pe loads (JDict [(''hobbies'', JList [JStr ''chess'', JStr ''hiking''])])
       = (\<lparr>header_elements = [Paragraph default_header ''HeaderName''],
           main_content = [Paragraph ''Hobbies'' ''SectionHeader'', HRFlowable,
                           Paragraph (bullet @ '' chess'') ''ListItem'',
                           Paragraph (bullet @ '' hiking'') ''ListItem''],
           resume_data = JDict [(''hobbies'', JList [JStr ''chess'', JStr ''hiking''])]\<rparr>,
          None)"
  proof -
    let ?v = "JList [JStr ''chess'', JStr ''hiking'']"
    let ?kvs = "[(''hobbies'', ?v)]"
    have k: "remaining (''hobbies'', ?v)" by code_simp
    have p: "plain (section_title ''hobbies'')" by code_simp
    have p1: "plain (bullet @ '' chess'')" and p2: "plain (bullet @ '' hiking'')"
      by code_simp+
    have ds: "default_section pe ?v
        = Inr [Paragraph (bullet @ '' chess'') ''ListItem'',
               Paragraph (bullet @ '' hiking'') ''ListItem'']"
      using make_paragraph_plain [OF p1, of pe "''ListItem''"]
        make_paragraph_plain [OF p2, of pe "''ListItem''"]
      by (simp add: default_section_def default_list_item_def)
    have ob: "other_blocks pe (''hobbies'', ?v)
        = [Paragraph ''Hobbies'' ''SectionHeader'', HRFlowable,
           Paragraph (bullet @ '' chess'') ''ListItem'',
           Paragraph (bullet @ '' hiking'') ''ListItem'']"
      using other_blocks_rendered [OF k, of pe] plain_title_accepted [OF p, of pe] ds
      by (simp add: t1)
    have fb: "concat (map (fixed_blocks pe ?kvs) section_order) = []"
      by (simp add: fixed_blocks_def section_order_def)
    have ra: "record_after ?kvs = ?kvs"
      by (simp add: record_after_def)
    have hd: "create_header_section pe loads (JDict ?kvs)
        = ([Paragraph default_header ''HeaderName''], None)"
      by (simp add: create_header_section_def header_blocks_def header_data_def present_def
          has_key_def default_header_accepted)
    have al: "\<forall>kv\<in>set ?kvs. remaining kv \<longrightarrow> accepts pe (failed_text (fst kv))"
      using plain_title_accepted [OF p, of pe] by simp
    show ?thesis
      unfolding process_resume_returns [OF al] fb ra hd
      using k by (simp add: ob)
  qed
  show ?thesis
    by (intro conjI) (rule a b c d r f s t1 t2 t3 h)+
qed

theorem remaining_sections_witness:
  "main_content (fst (process_resume parser_sample loads_sample
       (JDict [(''name'', JStr ''Ann''), (''workHistory'', JStr ''<b>x</b>'')])))
     = concat (map (fixed_blocks parser_sample
                      [(''name'', JStr ''Ann''), (''workHistory'', JStr ''<b>x</b>'')])
                 section_order)
       @ concat (map (other_blocks parser_sample)
                   (filter remaining [(''name'', JStr ''Ann''), (''workHistory'', JStr ''<b>x</b>'')]))
   \<and> other_blocks parser_sample (''workHistory'', JStr ''<b>x</b>'')
       = [Paragraph ''Work History'' ''SectionHeader'', HRFlowable,
          Paragraph ''<b>x</b>'' ''Normal'']
   \<and> other_blocks parser_sample (''hobbies'', JList [JStr ''a <b> c''])
       = [Paragraph ''Hobbies'' ''SectionHeader'', HRFlowable,
          Paragraph ''Error processing Hobbies'' ''Error'']
   \<and> (''workHistory'', JStr ''<b>x</b>'')
       \<in> set (filter remaining [(''name'', JStr ''Ann''), (''workHistory'', JStr ''<b>x</b>'')])"
proof -
  note t = remaining_sections
  let ?kv = "(''workHistory'', JStr ''<b>x</b>'')"
  let ?kvs = "[(''name'', JStr ''Ann''), ?kv]"
  let ?bad = "(''hobbies'', JList [JStr ''a <b> c''])"
  have al: "\<forall>kv\<in>set ?kvs. remaining kv \<longrightarrow> accepts parser_sample (failed_text (fst kv))"
    by code_simp
  have 1: "main_content (fst (process_resume parser_sample loads_sample (JDict ?kvs)))
     = concat (map (fixed_blocks parser_sample ?kvs) section_order)
       @ concat (map (other_blocks parser_sample) (filter remaining ?kvs))"
    using mp [OF t [of ?kvs parser_sample loads_sample, THEN conjunct1] al]
    by (rule conjunct2)
  have r: "remaining ?kv \<and> accepts parser_sample (section_title (fst ?kv))
        \<and> default_section parser_sample (snd ?kv) = Inr [Paragraph ''<b>x</b>'' ''Normal'']"
    by code_simp
  have 2: "other_blocks parser_sample ?kv
       = [Paragraph ''Work History'' ''SectionHeader'', HRFlowable,
          Paragraph ''<b>x</b>'' ''Normal'']"
  proof -
    have "other_blocks parser_sample ?kv
       = [Paragraph (section_title (fst ?kv)) ''SectionHeader'', HRFlowable]
         @ [Paragraph ''<b>x</b>'' ''Normal'']"
      by (rule mp [OF t [of _ parser_sample _ ?kv, THEN conjunct2, THEN conjunct1] r])
    moreover have "section_title (fst ?kv) = ''Work History''" by code_simp
    ultimately show ?thesis by simp
  qed
  obtain e where e: "process_section parser_sample (fst ?bad) (snd ?bad) = Inl e"
    by (cases "process_section parser_sample (fst ?bad) (snd ?bad)") (simp_all, code_simp)
  have b: "remaining ?bad \<and> accepts parser_sample (section_title (fst ?bad))
        \<and> accepts parser_sample (failed_text (fst ?bad))"
    by code_simp
  have 3: "other_blocks parser_sample ?bad
       = [Paragraph ''Hobbies'' ''SectionHeader'', HRFlowable,
          Paragraph ''Error processing Hobbies'' ''Error'']"
  proof -
    from b e have "remaining ?bad \<and> accepts parser_sample (section_title (fst ?bad))
        \<and> accepts parser_sample (failed_text (fst ?bad))
        \<and> process_section parser_sample (fst ?bad) (snd ?bad) = Inl e" by simp
    from mp [OF t [of _ parser_sample _ ?bad _ e, THEN conjunct2, THEN conjunct2,
        THEN conjunct1] this]
    have "other_blocks parser_sample ?bad
       = [Paragraph (section_title (fst ?bad)) ''SectionHeader'', HRFlowable,
          Paragraph (''Error processing '' @ section_title (fst ?bad)) ''Error'']" .
    moreover have "section_title (fst ?bad) = ''Hobbies''" by code_simp
    ultimately show ?thesis by simp
  qed
  have m: "?kv \<in> set ?kvs \<and> fst ?kv \<notin> set skip_fields \<and> truthy (snd ?kv)"
    by code_simp
  have 4: "?kv \<in> set (filter remaining ?kvs)"
    by (rule mp [OF t [of ?kvs _ _ ?kv, THEN conjunct2, THEN conjunct2, THEN conjunct2,
        THEN conjunct2, THEN conjunct2, THEN conjunct1] m])
  show ?thesis
    by (intro conjI) (rule 1 2 3 4)+
qed

subsection \<open>A section that raises\<close>










section \<open>A record that is not a dict\<close>

















end
